theory Spec2Isabelle
  imports Complex_Main
begin

section \<open>JavaScript values\<close>

text \<open>
  The payloads handled by the two ERP home screens are whatever the remote call
  resolves with, typed \<^verbatim>\<open>any\<close> in the source. They are modelled as deserialised
  JSON: arrays carry indexed elements only and objects are finite lists of named
  properties (the first binding of a name is the property read). Numbers are the
  rationals together with \<^verbatim>\<open>NaN\<close> and the two infinities; every finite double is such
  a rational.
\<close>

datatype jsnum = Fin rat | NaN | PosInf | NegInf

datatype jsval =
    JUndefined
  | JNull
  | JBool bool
  | JNum jsnum
  | JStr string
  | JArr "jsval list"
  | JObj "(string \<times> jsval) list"

text \<open>
  The two conversions between numbers and strings (\<^verbatim>\<open>Number::toString\<close> and
  \<^verbatim>\<open>StringToNumber\<close> of the language) depend on the binary representation of
  doubles, and the message of the TypeError that a failed conversion of an object
  raises depends on the engine. They are parameters of the model: every general theorem
  below holds for all of them.
\<close>

record builtins =
  numberToString :: "jsnum \<Rightarrow> string"
  stringToNumber :: "string \<Rightarrow> jsnum"
  typeErrorMessage :: string

text \<open>\<^verbatim>\<open>new Error(message)\<close>, and the TypeError of a failed conversion.\<close>

definition newError :: "string \<Rightarrow> jsval" where
  "newError message = JObj [(''message'', JStr message)]"

definition typeError :: "builtins \<Rightarrow> jsval" where
  "typeError B = newError (typeErrorMessage B)"

text \<open>\<^verbatim>\<open>!!v\<close>\<close>

fun truthy :: "jsval \<Rightarrow> bool" where
  "truthy JUndefined = False"
| "truthy JNull = False"
| "truthy (JBool b) = b"
| "truthy (JNum (Fin r)) = (r \<noteq> 0)"
| "truthy (JNum NaN) = False"
| "truthy (JNum PosInf) = True"
| "truthy (JNum NegInf) = True"
| "truthy (JStr s) = (s \<noteq> [])"
| "truthy (JArr xs) = True"
| "truthy (JObj ps) = True"

text \<open>\<^verbatim>\<open>v === undefined || v === null\<close>, the test behind \<^verbatim>\<open>??\<close> and \<^verbatim>\<open>?.\<close>\<close>

fun nullish :: "jsval \<Rightarrow> bool" where
  "nullish JUndefined = True"
| "nullish JNull = True"
| "nullish v = False"

text \<open>\<^verbatim>\<open>a ?? b\<close>\<close>

definition coalesce :: "jsval \<Rightarrow> jsval \<Rightarrow> jsval" where
  "coalesce a b = (if nullish a then b else a)"

text \<open>\<^verbatim>\<open>Array.isArray(v)\<close> and the elements of an array\<close>

fun isArray :: "jsval \<Rightarrow> bool" where
  "isArray (JArr xs) = True"
| "isArray v = False"

fun elems :: "jsval \<Rightarrow> jsval list" where
  "elems (JArr xs) = xs"
| "elems v = []"

text \<open>\<^verbatim>\<open>typeof v === 'object'\<close>\<close>

fun typeofObject :: "jsval \<Rightarrow> bool" where
  "typeofObject JNull = True"
| "typeofObject (JArr xs) = True"
| "typeofObject (JObj ps) = True"
| "typeofObject v = False"

text \<open>
  Reading a named property, for the names the source reads (\<^verbatim>\<open>data\<close>, \<^verbatim>\<open>id\<close>,
  \<^verbatim>\<open>name\<close>, \<^verbatim>\<open>status\<close>, ...): none of them is defined on a prototype, so the read is
  \<^verbatim>\<open>undefined\<close> on arrays and on primitives. On \<^verbatim>\<open>undefined\<close> and \<^verbatim>\<open>null\<close> the value
  given is that of the optional read \<^verbatim>\<open>v?.p\<close>; the source's plain reads are all
  behind a truthiness test of the object read.
\<close>

fun getProp :: "jsval \<Rightarrow> string \<Rightarrow> jsval" where
  "getProp (JObj ps) p = (case map_of ps p of Some v \<Rightarrow> v | None \<Rightarrow> JUndefined)"
| "getProp v p = JUndefined"

text \<open>\<^verbatim>\<open>p in v\<close> for an object: the object has the property as its own.\<close>

fun hasProp :: "jsval \<Rightarrow> string \<Rightarrow> bool" where
  "hasProp (JObj ps) p = (map_of ps p \<noteq> None)"
| "hasProp v p = False"

text \<open>\<^verbatim>\<open>xs.join(',')\<close> on strings\<close>

fun joinComma :: "string list \<Rightarrow> string" where
  "joinComma [] = []"
| "joinComma [s] = s"
| "joinComma (s # t # ss) = s @ '','' @ joinComma (t # ss)"

text \<open>
  \<^verbatim>\<open>String(v)\<close>, with the thrown value on the left. An array joins the strings of its
  elements, empty for \<^verbatim>\<open>undefined\<close> and \<^verbatim>\<open>null\<close> elements. An object is converted by
  the method found under \<^verbatim>\<open>toString\<close>: the inherited one gives \<^verbatim>\<open>[object Object]\<close>;
  an own property of that name is not callable in deserialised data, \<^verbatim>\<open>valueOf\<close> then
  gives no primitive either, and the conversion raises a TypeError.
\<close>

fun ToString :: "builtins \<Rightarrow> jsval \<Rightarrow> jsval + string"
and elementStrings :: "builtins \<Rightarrow> jsval list \<Rightarrow> jsval + string list" where
  "ToString B JUndefined = Inr ''undefined''"
| "ToString B JNull = Inr ''null''"
| "ToString B (JBool b) = Inr (if b then ''true'' else ''false'')"
| "ToString B (JNum n) = Inr (numberToString B n)"
| "ToString B (JStr s) = Inr s"
| "ToString B (JArr xs) =
     (case elementStrings B xs of
        Inl thrown \<Rightarrow> Inl thrown
      | Inr strings \<Rightarrow> Inr (joinComma strings))"
| "ToString B (JObj ps) =
     (if hasProp (JObj ps) ''toString'' then Inl (typeError B) else Inr ''[object Object]'')"
| "elementStrings B [] = Inr []"
| "elementStrings B (x # xs) =
     (case (if nullish x then Inr [] else ToString B x) of
        Inl thrown \<Rightarrow> Inl thrown
      | Inr s \<Rightarrow>
          (case elementStrings B xs of
             Inl thrown \<Rightarrow> Inl thrown
           | Inr strings \<Rightarrow> Inr (s # strings)))"

text \<open>
  \<^verbatim>\<open>Number(v)\<close>, with the thrown value on the left: arrays and objects are converted
  through their string (their \<^verbatim>\<open>valueOf\<close> gives no primitive), and raise where that
  raises.
\<close>

fun ToNumber :: "builtins \<Rightarrow> jsval \<Rightarrow> jsval + jsnum" where
  "ToNumber B JUndefined = Inr NaN"
| "ToNumber B JNull = Inr (Fin 0)"
| "ToNumber B (JBool b) = Inr (if b then Fin 1 else Fin 0)"
| "ToNumber B (JNum n) = Inr n"
| "ToNumber B (JStr s) = Inr (stringToNumber B s)"
| "ToNumber B (JArr xs) =
     (case ToString B (JArr xs) of
        Inl thrown \<Rightarrow> Inl thrown
      | Inr s \<Rightarrow> Inr (stringToNumber B s))"
| "ToNumber B (JObj ps) =
     (case ToString B (JObj ps) of
        Inl thrown \<Rightarrow> Inl thrown
      | Inr s \<Rightarrow> Inr (stringToNumber B s))"

text \<open>\<^verbatim>\<open>Number.isFinite(n)\<close>\<close>

fun isFinite :: "jsnum \<Rightarrow> bool" where
  "isFinite (Fin r) = True"
| "isFinite n = False"

section \<open>Payload normalisation\<close>

text \<open>The cache entry type \<^verbatim>\<open>ErpSystem\<close> of \<^verbatim>\<open>services/erpStorage\<close>.\<close>

record ErpSystem =
  erp_id :: string
  erp_name :: string
  formCount :: jsnum

text \<open>
  The loop over \<^verbatim>\<open>candidates\<close> in \<^verbatim>\<open>normalizeErpSystems\<close>: the first candidate
  that is an array, or whose \<^verbatim>\<open>data\<close> is one, gives the list and ends the loop.
\<close>

fun candidateList :: "jsval list \<Rightarrow> jsval list" where
  "candidateList [] = []"
| "candidateList (candidate # rest) =
     (if isArray candidate then elems candidate
      else if truthy candidate \<and> isArray (getProp candidate ''data'')
        then elems (getProp candidate ''data'')
      else candidateList rest)"

text \<open>
  \<^verbatim>\<open>mapToErpSystem\<close>: \<^verbatim>\<open>Inr None\<close> is the source's \<^verbatim>\<open>null\<close>, and a value on the
  left is thrown by one of the conversions of the returned record, which are made in
  the order id, name, count. The three resolved values are named as in the source.
\<close>

definition resolveId :: "jsval \<Rightarrow> jsval" where
  "resolveId item =
     coalesce (getProp item ''id'')
       (coalesce (getProp item ''ID'')
         (coalesce (getProp item ''key'')
           (coalesce (getProp item ''name'')
             (coalesce (getProp item ''systemId'') (JStr [])))))"

definition resolveName :: "jsval \<Rightarrow> jsval" where
  "resolveName item =
     coalesce (getProp item ''name'')
       (coalesce (getProp item ''title'')
         (coalesce (getProp item ''systemName'') (JStr [])))"

definition formCountValue :: "jsval \<Rightarrow> jsval" where
  "formCountValue item =
     coalesce (getProp item ''formCount'')
       (coalesce (getProp item ''form_count'')
         (coalesce (getProp item ''formsCount'')
           (coalesce (getProp item ''forms_count'') (JNum (Fin 0)))))"

definition mapToErpSystem :: "builtins \<Rightarrow> jsval \<Rightarrow> jsval + ErpSystem option" where
  "mapToErpSystem B item =
     (if truthy item \<and> typeofObject item then
        (if truthy (resolveId item) \<and> truthy (resolveName item) then
           (case ToString B (resolveId item) of
              Inl thrown \<Rightarrow> Inl thrown
            | Inr idString \<Rightarrow>
                (case ToString B (resolveName item) of
                   Inl thrown \<Rightarrow> Inl thrown
                 | Inr nameString \<Rightarrow>
                     (case ToNumber B (formCountValue item) of
                        Inl thrown \<Rightarrow> Inl thrown
                      | Inr n \<Rightarrow>
                          Inr (Some \<lparr> erp_id = idString, erp_name = nameString,
                                      formCount = (if isFinite n then n else Fin 0) \<rparr>))))
         else Inr None)
      else Inr None)"

text \<open>\<^verbatim>\<open>list.map(f)\<close> for a callback that may throw: the first throw ends the map.\<close>

fun mapItems :: "(jsval \<Rightarrow> jsval + 'a) \<Rightarrow> jsval list \<Rightarrow> jsval + 'a list" where
  "mapItems f [] = Inr []"
| "mapItems f (x # xs) =
     (case f x of
        Inl thrown \<Rightarrow> Inl thrown
      | Inr y \<Rightarrow>
          (case mapItems f xs of
             Inl thrown \<Rightarrow> Inl thrown
           | Inr ys \<Rightarrow> Inr (y # ys)))"

text \<open>\<^verbatim>\<open>.filter(Boolean)\<close> on the mapped list: the \<^verbatim>\<open>null\<close> entries go.\<close>

fun filterBoolean :: "'a option list \<Rightarrow> 'a list" where
  "filterBoolean [] = []"
| "filterBoolean (None # xs) = filterBoolean xs"
| "filterBoolean (Some x # xs) = x # filterBoolean xs"

text \<open>\<^verbatim>\<open>list.map(mapToErpSystem).filter(Boolean)\<close>\<close>

definition mapAndFilter :: "builtins \<Rightarrow> jsval list \<Rightarrow> jsval + ErpSystem list" where
  "mapAndFilter B list =
     (case mapItems (mapToErpSystem B) list of
        Inl thrown \<Rightarrow> Inl thrown
      | Inr mapped \<Rightarrow> Inr (filterBoolean mapped))"

definition normalizeErpSystems :: "builtins \<Rightarrow> jsval \<Rightarrow> jsval + ErpSystem list" where
  "normalizeErpSystems B raw =
     (if truthy raw then mapAndFilter B (candidateList [getProp raw ''data'', raw])
      else Inr [])"

section \<open>The cache and the two home screens\<close>

text \<open>
  What is stored under the cache key: nothing, a blob that does not deserialise, or a
  snapshot.
\<close>

datatype blob = Absent | Unreadable | Stored "ErpSystem list"

text \<open>
  The state a run of \<^verbatim>\<open>loadErpSystems\<close> reads and writes: the cache, the component
  state (\<^verbatim>\<open>erpSystems\<close>, \<^verbatim>\<open>loading\<close>), and three counters of what the run did: the
  calls of the remote fetch, the suspension points (\<^verbatim>\<open>await\<close>) passed, and the
  timer delays waited for, in milliseconds.
\<close>

record world =
  cacheBlob :: blob
  erpSystems :: "ErpSystem list"
  loading :: bool
  fetchCalls :: nat
  suspensions :: nat
  delays :: "nat list"

text \<open>
  What the run meets: the connectivity flag (\<^verbatim>\<open>null\<close> is \<^verbatim>\<open>None\<close>), the outcome of
  the k-th call of \<^verbatim>\<open>getErpSystems\<close> (thrown value on the left), the outcome of
  \<^verbatim>\<open>getIdToken({forceRefresh: true})\<close>, whether the store accepts a write, and the
  suspension point during which the effect's cleanup sets \<^verbatim>\<open>cancelled\<close>, if it does.
\<close>

record env =
  isConnected :: "bool option"
  getErpSystems :: "nat \<Rightarrow> jsval + jsval"
  getIdToken :: "jsval + jsval"
  storeWritable :: bool
  teardownAt :: "nat option"

datatype outcome = Resolved | Rejected

text \<open>The flag \<^verbatim>\<open>cancelled\<close> as the run reads it after the awaits it has passed.\<close>

definition cancelled :: "env \<Rightarrow> world \<Rightarrow> bool" where
  "cancelled e w = (case teardownAt e of None \<Rightarrow> False | Some k \<Rightarrow> k \<le> suspensions w)"

text \<open>One \<^verbatim>\<open>await\<close>.\<close>

definition suspend :: "world \<Rightarrow> world" where
  "suspend w = w\<lparr>suspensions := Suc (suspensions w)\<rparr>"

text \<open>
  Modelled from the spec: \<^verbatim>\<open>loadErpSystemsFromCache\<close> of \<^verbatim>\<open>services/erpStorage\<close>,
  which is not among the sources. It returns the stored sequence, fails silently
  (returns Empty, here \<^verbatim>\<open>None\<close>) on a deserialisation error or an absent key, and
  never throws to the caller.
\<close>

definition loadErpSystemsFromCache :: "world \<Rightarrow> ErpSystem list option" where
  "loadErpSystemsFromCache w =
     (case cacheBlob w of Stored systems \<Rightarrow> Some systems | Absent \<Rightarrow> None | Unreadable \<Rightarrow> None)"

text \<open>
  Modelled from the spec: \<^verbatim>\<open>saveErpSystemsToCache\<close> of \<^verbatim>\<open>services/erpStorage\<close>,
  which is not among the sources. It serialises and overwrites the single stored blob;
  a failure is logged, not propagated.
\<close>

definition saveErpSystemsToCache :: "env \<Rightarrow> ErpSystem list \<Rightarrow> world \<Rightarrow> world" where
  "saveErpSystemsToCache e systems w =
     (if storeWritable e then w\<lparr>cacheBlob := Stored systems\<rparr> else w)"

text \<open>\<^verbatim>\<open>cached && cached.length > 0\<close>, and the list then shown.\<close>

fun nonEmpty :: "ErpSystem list option \<Rightarrow> bool" where
  "nonEmpty None = False"
| "nonEmpty (Some systems) = (systems \<noteq> [])"

fun orEmpty :: "ErpSystem list option \<Rightarrow> ErpSystem list" where
  "orEmpty None = []"
| "orEmpty (Some systems) = systems"

text \<open>\<^verbatim>\<open>s.includes(pat)\<close> on strings.\<close>

fun strIncludes :: "string \<Rightarrow> string \<Rightarrow> bool" where
  "strIncludes [] pat = (pat = [])"
| "strIncludes (c # cs) pat = (take (length pat) (c # cs) = pat \<or> strIncludes cs pat)"

text \<open>
  \<^verbatim>\<open>error?.message?.includes(pat)\<close>. An absent message gives \<^verbatim>\<open>undefined\<close>, which
  counts as false; a string is searched, an array is searched for the element; on any
  other message the call is a TypeError, here \<^verbatim>\<open>None\<close>.
\<close>

definition messageIncludes :: "jsval \<Rightarrow> string \<Rightarrow> bool option" where
  "messageIncludes error pat =
     (case getProp error ''message'' of
        JUndefined \<Rightarrow> Some False
      | JNull \<Rightarrow> Some False
      | JStr s \<Rightarrow> Some (strIncludes s pat)
      | JArr xs \<Rightarrow> Some (List.member xs (JStr pat))
      | JBool b \<Rightarrow> None
      | JNum n \<Rightarrow> None
      | JObj ps \<Rightarrow> None)"

text \<open>
  The classification \<^verbatim>\<open>is401Error\<close> of the first screen's catch block, disjunct by
  disjunct. \<^verbatim>\<open>None\<close> is a TypeError raised by the classification itself: by
  \<^verbatim>\<open>'status' in null\<close>, or by an \<^verbatim>\<open>includes\<close> that is not a function.
\<close>

definition is401Error :: "jsval \<Rightarrow> bool option" where
  "is401Error error =
     (if getProp (getProp error ''response'') ''status'' = JNum (Fin 401) then Some True
      else if getProp error ''status'' = JNum (Fin 401) then Some True
      else if getProp error ''statusCode'' = JNum (Fin 401) then Some True
      else if error = JNull then None
      else if typeofObject error \<and> hasProp error ''status''
                \<and> getProp error ''status'' = JNum (Fin 401) then Some True
      else (case messageIncludes error ''401'' of
              None \<Rightarrow> None
            | Some True \<Rightarrow> Some True
            | Some False \<Rightarrow> messageIncludes error ''Unauthorized''))"

text \<open>\<^verbatim>\<open>await getErpSystems()\<close>: the next outcome, one more call, one more await.\<close>

definition callGetErpSystems :: "env \<Rightarrow> world \<Rightarrow> (jsval + jsval) \<times> world" where
  "callGetErpSystems e w =
     (getErpSystems e (fetchCalls w), suspend (w\<lparr>fetchCalls := Suc (fetchCalls w)\<rparr>))"

text \<open>
  The start of both screens' \<^verbatim>\<open>loadErpSystems\<close>: \<^verbatim>\<open>setLoading(true)\<close>, the awaited
  cache read, and the cached list shown at once when there is one.
\<close>

definition showCached :: "env \<Rightarrow> world \<Rightarrow> ErpSystem list option \<times> world" where
  "showCached e w =
     (let w1 = suspend (w\<lparr>loading := True\<rparr>);
          cached = loadErpSystemsFromCache w1
      in (cached,
          if \<not> cancelled e w1 \<and> nonEmpty cached
          then w1\<lparr>erpSystems := orEmpty cached\<rparr> else w1))"

text \<open>\<^verbatim>\<open>if (!cancelled) setLoading(false)\<close>, of the offline return and of \<^verbatim>\<open>finally\<close>.\<close>

definition stopLoading :: "env \<Rightarrow> world \<Rightarrow> world" where
  "stopLoading e w = (if \<not> cancelled e w then w\<lparr>loading := False\<rparr> else w)"

text \<open>
  The fall back to cached data, written three times in the source (after a failed
  retry, after a non-401 error, and in the second screen's catch block): the flag is
  read once, before the second cache read is awaited.
\<close>

definition fallbackToCache :: "env \<Rightarrow> ErpSystem list option \<Rightarrow> world \<Rightarrow> world" where
  "fallbackToCache e cached w =
     (if \<not> cancelled e w then
        (if nonEmpty cached then w\<lparr>erpSystems := orEmpty cached\<rparr>
         else
           (let w1 = suspend w; fallback = loadErpSystemsFromCache w1
            in if nonEmpty fallback then w1\<lparr>erpSystems := orEmpty fallback\<rparr>
               else w1\<lparr>erpSystems := []\<rparr>))
      else w)"

text \<open>
  First screen, a response has been normalised (lines 126-129 and 160-163): the list is
  shown unless the run is cancelled, then saved.
\<close>

definition applySystems :: "env \<Rightarrow> ErpSystem list \<Rightarrow> world \<Rightarrow> world" where
  "applySystems e systems w =
     saveErpSystemsToCache e systems
       (suspend (if \<not> cancelled e w then w\<lparr>erpSystems := systems\<rparr> else w))"

text \<open>
  First screen, the 401 branch (lines 145-193): the token module is imported and the
  token refreshed (two awaits); with a token the run waits 100 ms and fetches again;
  without one, or when the refresh, the second fetch or the normalisation of its
  response throws, it falls back.
\<close>

definition retryAfterRefresh ::
  "builtins \<Rightarrow> env \<Rightarrow> ErpSystem list option \<Rightarrow> world \<Rightarrow> world" where
  "retryAfterRefresh B e cached w =
     (let w2 = suspend (suspend w)
      in case getIdToken e of
           Inl thrown \<Rightarrow> fallbackToCache e cached w2
         | Inr refreshedToken \<Rightarrow>
             (if truthy refreshedToken then
                (case callGetErpSystems e (suspend (w2\<lparr>delays := delays w2 @ [100]\<rparr>)) of
                   (Inr retryResponse, w4) \<Rightarrow>
                     (case normalizeErpSystems B retryResponse of
                        Inl thrown \<Rightarrow> fallbackToCache e cached w4
                      | Inr systems \<Rightarrow> applySystems e systems w4)
                 | (Inl retryError, w4) \<Rightarrow> fallbackToCache e cached w4)
              else fallbackToCache e cached w2))"

text \<open>
  First screen, the catch block of the fetch (lines 131-211) with its \<^verbatim>\<open>finally\<close>: the
  value caught is classified; a classification that raises leaves the block at once.
\<close>

definition catchFetchError ::
  "builtins \<Rightarrow> env \<Rightarrow> ErpSystem list option \<Rightarrow> jsval \<Rightarrow> world \<Rightarrow> outcome \<times> world" where
  "catchFetchError B e cached error w =
     (case is401Error error of
        None \<Rightarrow> (Rejected, stopLoading e w)
      | Some is401 \<Rightarrow>
          (Resolved,
           stopLoading e
             (if is401 then retryAfterRefresh B e cached w else fallbackToCache e cached w)))"

text \<open>
  \<^verbatim>\<open>loadErpSystems\<close> of the first screen (lines 97-217). The normalisation is inside
  the \<^verbatim>\<open>try\<close> block: what it throws is caught like a thrown fetch.
\<close>

definition loadErpSystems1 :: "builtins \<Rightarrow> env \<Rightarrow> world \<Rightarrow> outcome \<times> world" where
  "loadErpSystems1 B e w =
     (if cancelled e w then (Resolved, w)
      else
        (case showCached e w of
           (cached, w3) \<Rightarrow>
             (if isConnected e = Some False then (Resolved, stopLoading e w3)
              else
                (case callGetErpSystems e w3 of
                   (Inr response, w4) \<Rightarrow>
                     (case normalizeErpSystems B response of
                        Inl thrown \<Rightarrow> catchFetchError B e cached thrown w4
                      | Inr systems \<Rightarrow> (Resolved, stopLoading e (applySystems e systems w4)))
                 | (Inl error, w4) \<Rightarrow> catchFetchError B e cached error w4))))"

text \<open>
  Second screen, a response has been normalised (lines 475-479): shown and saved only
  when the run is not cancelled and the list is not empty.
\<close>

definition applySystems2 :: "env \<Rightarrow> ErpSystem list \<Rightarrow> world \<Rightarrow> world" where
  "applySystems2 e systems w =
     (if \<not> cancelled e w \<and> systems \<noteq> []
      then saveErpSystemsToCache e systems (suspend (w\<lparr>erpSystems := systems\<rparr>))
      else w)"

text \<open>\<^verbatim>\<open>loadErpSystems\<close> of the second screen (lines 439-509): no refresh, no retry.\<close>

definition loadErpSystems2 :: "builtins \<Rightarrow> env \<Rightarrow> world \<Rightarrow> outcome \<times> world" where
  "loadErpSystems2 B e w =
     (if cancelled e w then (Resolved, w)
      else
        (case showCached e w of
           (cached, w3) \<Rightarrow>
             (if isConnected e = Some False then (Resolved, stopLoading e w3)
              else
                (case callGetErpSystems e w3 of
                   (Inr response, w4) \<Rightarrow>
                     (case normalizeErpSystems B response of
                        Inl thrown \<Rightarrow> (Resolved, stopLoading e (fallbackToCache e cached w4))
                      | Inr systems \<Rightarrow> (Resolved, stopLoading e (applySystems2 e systems w4)))
                 | (Inl error, w4) \<Rightarrow>
                     (Resolved, stopLoading e (fallbackToCache e cached w4))))))"


section \<open>Export of the pending forms\<close>

datatype ExportPendingFormsStatus =
    Empty
  | Success (filePath: string) (fileName: string) (directory: string)
  | Error jsval

text \<open>
  The file system is the platform's. Its three operations are parameters over a state
  of any type: each may throw (a thrown value on the left, or \<^verbatim>\<open>Some\<close> of it), and a
  throwing \<^verbatim>\<open>mkdir\<close> or \<^verbatim>\<open>writeFile\<close> may still have changed the state.
\<close>

record 'fs RNFS =
  rnfs_exists :: "string \<Rightarrow> 'fs \<Rightarrow> jsval + bool"
  rnfs_mkdir :: "string \<Rightarrow> 'fs \<Rightarrow> jsval option \<times> 'fs"
  rnfs_writeFile :: "string \<Rightarrow> string \<Rightarrow> 'fs \<Rightarrow> jsval option \<times> 'fs"

text \<open>The calls made are logged beside the state, latest last.\<close>

datatype fs_call = Exists string | Mkdir string | WriteFile string string

record 'fs device =
  fs :: 'fs
  calls :: "fs_call list"

text \<open>
  \<^verbatim>\<open>Platform.OS\<close> and the three directory constants. An undefined or empty constant
  is the empty string: the source tests the first two for truthiness before use.
\<close>

record platform =
  platformOS :: string
  DownloadDirectoryPath :: string
  ExternalStorageDirectoryPath :: string
  DocumentDirectoryPath :: string

text \<open>\<^verbatim>\<open>buildFileName\<close>, from the ISO timestamp of the moment.\<close>

definition buildFileName :: "string \<Rightarrow> string" where
  "buildFileName isoNow =
     ''pending_forms_''
       @ map (\<lambda>c. if c = CHR '':'' \<or> c = CHR ''.'' then CHR ''-'' else c) isoNow
       @ ''.json''"

definition targetDirectories :: "platform \<Rightarrow> string list" where
  "targetDirectories p =
     (if platformOS p = ''android'' then
        (if DownloadDirectoryPath p \<noteq> [] then [DownloadDirectoryPath p] else [])
        @ (if ExternalStorageDirectoryPath p \<noteq> []
           then [ExternalStorageDirectoryPath p @ ''/Download''] else [])
        @ [DocumentDirectoryPath p]
      else [DocumentDirectoryPath p])"

definition callExists :: "'fs RNFS \<Rightarrow> string \<Rightarrow> 'fs device \<Rightarrow> (jsval + bool) \<times> 'fs device" where
  "callExists R path d = (rnfs_exists R path (fs d), d\<lparr>calls := calls d @ [Exists path]\<rparr>)"

definition callMkdir :: "'fs RNFS \<Rightarrow> string \<Rightarrow> 'fs device \<Rightarrow> jsval option \<times> 'fs device" where
  "callMkdir R path d =
     (case rnfs_mkdir R path (fs d) of
        (thrown, s) \<Rightarrow> (thrown, \<lparr>fs = s, calls = calls d @ [Mkdir path]\<rparr>))"

definition callWriteFile ::
  "'fs RNFS \<Rightarrow> string \<Rightarrow> string \<Rightarrow> 'fs device \<Rightarrow> jsval option \<times> 'fs device" where
  "callWriteFile R path contents d =
     (case rnfs_writeFile R path contents (fs d) of
        (thrown, s) \<Rightarrow> (thrown, \<lparr>fs = s, calls = calls d @ [WriteFile path contents]\<rparr>))"

text \<open>
  The body of the \<^verbatim>\<open>try\<close> block for one directory (lines 174-190): the written
  file's path on the right, the thrown value on the left.
\<close>

definition writeToDirectory ::
  "'fs RNFS \<Rightarrow> string \<Rightarrow> string \<Rightarrow> string \<Rightarrow> 'fs device \<Rightarrow> (jsval + string) \<times> 'fs device" where
  "writeToDirectory R name payload dir d =
     (case callExists R dir d of
        (Inl thrown, d1) \<Rightarrow> (Inl thrown, d1)
      | (Inr dirExists, d1) \<Rightarrow>
          (case (if dirExists then (None, d1) else callMkdir R dir d1) of
             (Some thrown, d2) \<Rightarrow> (Inl thrown, d2)
           | (None, d2) \<Rightarrow>
               (case callWriteFile R (dir @ ''/'' @ name) payload d2 of
                  (Some thrown, d3) \<Rightarrow> (Inl thrown, d3)
                | (None, d3) \<Rightarrow>
                    (case callExists R (dir @ ''/'' @ name) d3 of
                       (Inl thrown, d4) \<Rightarrow> (Inl thrown, d4)
                     | (Inr fileExists, d4) \<Rightarrow>
                         (if fileExists then (Inr (dir @ ''/'' @ name), d4)
                          else (Inl (newError ''File was not created successfully''), d4))))))"

text \<open>The loop over \<^verbatim>\<open>targetDirectories\<close>, with \<^verbatim>\<open>lastError\<close>, and the final return.\<close>

fun tryDirectories ::
  "'fs RNFS \<Rightarrow> string \<Rightarrow> string \<Rightarrow> string list \<Rightarrow> jsval \<Rightarrow> 'fs device
     \<Rightarrow> ExportPendingFormsStatus \<times> 'fs device" where
  "tryDirectories R name payload [] lastError d = (Error lastError, d)"
| "tryDirectories R name payload (dir # rest) lastError d =
     (case writeToDirectory R name payload dir d of
        (Inr path, d') \<Rightarrow> (Success path name dir, d')
      | (Inl thrown, d') \<Rightarrow> tryDirectories R name payload rest thrown d')"

text \<open>
  \<^verbatim>\<open>exportPendingFormsToFile\<close>. The queue is the value \<^verbatim>\<open>getQueue()\<close> resolved with,
  \<^verbatim>\<open>stringify\<close> is \<^verbatim>\<open>JSON.stringify(_, null, 2)\<close>, and \<^verbatim>\<open>isoNow\<close> the timestamp.
\<close>

definition exportPendingFormsToFile ::
  "'fs RNFS \<Rightarrow> platform \<Rightarrow> (jsval \<Rightarrow> string) \<Rightarrow> string \<Rightarrow> jsval \<Rightarrow> 'fs device
     \<Rightarrow> ExportPendingFormsStatus \<times> 'fs device" where
  "exportPendingFormsToFile R p stringify isoNow queue d =
     (if isArray queue \<and> elems queue \<noteq> [] then
        tryDirectories R (buildFileName isoNow) (stringify queue) (targetDirectories p) JNull d
      else (Empty, d))"

text \<open>
  The attempts on a list of directories when each of them fails: the values thrown, in
  order, and the device left behind; \<^verbatim>\<open>None\<close> when one of them succeeds.
\<close>

fun failures ::
  "'fs RNFS \<Rightarrow> string \<Rightarrow> string \<Rightarrow> string list \<Rightarrow> 'fs device \<Rightarrow> (jsval list \<times> 'fs device) option" where
  "failures R name payload [] d = Some ([], d)"
| "failures R name payload (dir # rest) d =
     (case writeToDirectory R name payload dir d of
        (Inr path, d') \<Rightarrow> None
      | (Inl thrown, d') \<Rightarrow>
          (case failures R name payload rest d' of
             None \<Rightarrow> None
           | Some (throwns, d'') \<Rightarrow> Some (thrown # throwns, d'')))"

section \<open>Sample environments\<close>

text \<open>
  Number conversions for evaluating examples: integers are written and read in plain
  decimal notation, as the language does for integers below \<open>10\<^sup>2\<^sup>1\<close>. On every other
  number and string the value is a placeholder that no example reaches. The message
  of the TypeError is that of one engine.
\<close>

fun decimal :: "nat \<Rightarrow> string" where
  "decimal n = (if n < 10 then [''0123456789'' ! n] else decimal (n div 10) @ [''0123456789'' ! (n mod 10)])"

definition sampleNumberToString :: "jsnum \<Rightarrow> string" where
  "sampleNumberToString n =
     (case n of
        Fin r \<Rightarrow>
          (if r = of_int \<lfloor>r\<rfloor> then
             (if r < 0 then ''-'' @ decimal (nat (- \<lfloor>r\<rfloor>)) else decimal (nat \<lfloor>r\<rfloor>))
           else ''NaN'')
      | NaN \<Rightarrow> ''NaN''
      | PosInf \<Rightarrow> ''Infinity''
      | NegInf \<Rightarrow> ''-Infinity'')"

definition digitValue :: "char \<Rightarrow> nat option" where
  "digitValue c = map_of (zip ''0123456789'' [0, 1, 2, 3, 4, 5, 6, 7, 8, 9]) c"

fun readDecimal :: "nat \<Rightarrow> string \<Rightarrow> nat option" where
  "readDecimal acc [] = Some acc"
| "readDecimal acc (c # cs) =
     (case digitValue c of None \<Rightarrow> None | Some v \<Rightarrow> readDecimal (10 * acc + v) cs)"

definition sampleStringToNumber :: "string \<Rightarrow> jsnum" where
  "sampleStringToNumber s =
     (case readDecimal 0 s of None \<Rightarrow> NaN | Some n \<Rightarrow> Fin (of_nat n))"

definition sampleBuiltins :: builtins where
  "sampleBuiltins =
     \<lparr> numberToString = sampleNumberToString, stringToNumber = sampleStringToNumber,
       typeErrorMessage = ''Cannot convert object to primitive value'' \<rparr>"


section \<open>Statements to compare the code with\<close>

text \<open>
  The candidate list in the order the specification gives: \<^verbatim>\<open>raw.data\<close> if it is a
  sequence, else \<^verbatim>\<open>raw\<close> itself if it is one, else \<^verbatim>\<open>raw.data.data\<close> if it is one,
  else the empty sequence.
\<close>

definition candidatesBySpec :: "jsval \<Rightarrow> jsval list" where
  "candidatesBySpec raw =
     (if isArray (getProp raw ''data'') then elems (getProp raw ''data'')
      else if isArray raw then elems raw
      else if isArray (getProp (getProp raw ''data'') ''data'')
        then elems (getProp (getProp raw ''data'') ''data'')
      else [])"


text \<open>
  The rule the items are kept by: the item is an object, and its resolved id and its
  resolved name are both truthy before any coercion. The record then made of it.
\<close>

definition survives :: "jsval \<Rightarrow> bool" where
  "survives item =
     (truthy item \<and> typeofObject item \<and> truthy (resolveId item) \<and> truthy (resolveName item))"

definition toErpSystem :: "builtins \<Rightarrow> jsval \<Rightarrow> jsval + ErpSystem" where
  "toErpSystem B item =
     (case ToString B (resolveId item) of
        Inl thrown \<Rightarrow> Inl thrown
      | Inr idString \<Rightarrow>
          (case ToString B (resolveName item) of
             Inl thrown \<Rightarrow> Inl thrown
           | Inr nameString \<Rightarrow>
               (case ToNumber B (formCountValue item) of
                  Inl thrown \<Rightarrow> Inl thrown
                | Inr n \<Rightarrow>
                    Inr \<lparr> erp_id = idString, erp_name = nameString,
                          formCount = (if isFinite n then n else Fin 0) \<rparr>)))"

text \<open>The first of a list of values that is neither \<^verbatim>\<open>undefined\<close> nor \<^verbatim>\<open>null\<close>.\<close>

fun firstPresent :: "jsval list \<Rightarrow> jsval \<Rightarrow> jsval" where
  "firstPresent [] dflt = dflt"
| "firstPresent (v # vs) dflt = (if nullish v then firstPresent vs dflt else v)"

text \<open>A non-negative integer, as the specification types \<^verbatim>\<open>formCount\<close>.\<close>

fun nonNegativeInteger :: "jsnum \<Rightarrow> bool" where
  "nonNegativeInteger (Fin r) = (0 \<le> r \<and> r = of_int \<lfloor>r\<rfloor>)"
| "nonNegativeInteger n = False"


text \<open>
  One candidate directory in the specification's words, on the bare file system:
  ensure the directory exists (create it if missing), write the file, verify that the
  file can be found again; the first step that fails ends the attempt and gives the
  value thrown, \<^verbatim>\<open>None\<close> when all three succeed.
\<close>

definition ensureDirectory :: "'fs RNFS \<Rightarrow> string \<Rightarrow> 'fs \<Rightarrow> jsval option \<times> 'fs" where
  "ensureDirectory R dir s =
     (case rnfs_exists R dir s of
        Inl thrown \<Rightarrow> (Some thrown, s)
      | Inr present \<Rightarrow> (if present then (None, s) else rnfs_mkdir R dir s))"

definition verifyWritten :: "'fs RNFS \<Rightarrow> string \<Rightarrow> 'fs \<Rightarrow> jsval option" where
  "verifyWritten R path s =
     (case rnfs_exists R path s of
        Inl thrown \<Rightarrow> Some thrown
      | Inr found \<Rightarrow>
          (if found then None else Some (newError ''File was not created successfully'')))"

definition candidateAttempt ::
  "'fs RNFS \<Rightarrow> string \<Rightarrow> string \<Rightarrow> string \<Rightarrow> 'fs \<Rightarrow> jsval option \<times> 'fs" where
  "candidateAttempt R name payload dir s =
     (case ensureDirectory R dir s of
        (Some thrown, s1) \<Rightarrow> (Some thrown, s1)
      | (None, s1) \<Rightarrow>
          (case rnfs_writeFile R (dir @ ''/'' @ name) payload s1 of
             (Some thrown, s2) \<Rightarrow> (Some thrown, s2)
           | (None, s2) \<Rightarrow> (verifyWritten R (dir @ ''/'' @ name) s2, s2)))"

text \<open>
  Every candidate of a list fails, each tried on the file system the one before left:
  the values thrown, in order, and the file system left behind.
\<close>

fun allFail ::
  "'fs RNFS \<Rightarrow> string \<Rightarrow> string \<Rightarrow> string list \<Rightarrow> 'fs \<Rightarrow> (jsval list \<times> 'fs) option" where
  "allFail R name payload [] s = Some ([], s)"
| "allFail R name payload (dir # rest) s =
     (case candidateAttempt R name payload dir s of
        (None, s') \<Rightarrow> None
      | (Some thrown, s') \<Rightarrow>
          (case allFail R name payload rest s' of
             None \<Rightarrow> None
           | Some (throwns, s'') \<Rightarrow> Some (thrown # throwns, s'')))"

section \<open>Sample inputs\<close>

definition itemCSA :: "jsnum \<Rightarrow> jsval" where
  "itemCSA n = JObj [(''id'', JStr ''1''), (''name'', JStr ''CSA''), (''formCount'', JNum n)]"

definition itemIdZero :: jsval where
  "itemIdZero = JObj [(''id'', JNum (Fin 0)), (''name'', JStr ''CSA'')]"

definition itemIdEmptyArray :: jsval where
  "itemIdEmptyArray = JObj [(''id'', JArr []), (''name'', JStr ''CSA'')]"

definition itemTitled :: jsval where
  "itemTitled = JObj [(''key'', JNum (Fin 7)), (''title'', JStr ''Farm''), (''forms_count'', JStr ''12'')]"

definition itemIdObject :: jsval where
  "itemIdObject = JObj [(''id'', JObj [(''toString'', JStr ''x'')]), (''name'', JStr ''A'')]"

section \<open>Kinds of runs\<close>

text \<open>
  The runs in which the remote fetch fails. In the first screen: the first call throws a
  value classified as not a 401, or as a 401 and then the refresh throws, yields no
  token, or the second call throws as well. In the second screen: the call throws.
\<close>

definition refreshAndRetryFails :: "env \<Rightarrow> nat \<Rightarrow> bool" where
  "refreshAndRetryFails e k =
     (case getIdToken e of
        Inl thrown \<Rightarrow> True
      | Inr token \<Rightarrow> (if truthy token then isl (getErpSystems e (Suc k)) else True))"

definition fetchFails1 :: "env \<Rightarrow> world \<Rightarrow> bool" where
  "fetchFails1 e w =
     (case getErpSystems e (fetchCalls w) of
        Inr response \<Rightarrow> False
      | Inl error \<Rightarrow>
          (case is401Error error of
             None \<Rightarrow> False
           | Some is401 \<Rightarrow> (if is401 then refreshAndRetryFails e (fetchCalls w) else True)))"

definition fetchFails2 :: "env \<Rightarrow> world \<Rightarrow> bool" where
  "fetchFails2 e w = isl (getErpSystems e (fetchCalls w))"

text \<open>The first call throws a value classified as a 401.\<close>

definition fails401 :: "env \<Rightarrow> world \<Rightarrow> bool" where
  "fails401 e w =
     (case getErpSystems e (fetchCalls w) of
        Inr response \<Rightarrow> False
      | Inl error \<Rightarrow> is401Error error = Some True)"

text \<open>The refresh yields a token.\<close>

definition tokenObtained :: "env \<Rightarrow> bool" where
  "tokenObtained e = (case getIdToken e of Inl thrown \<Rightarrow> False | Inr token \<Rightarrow> truthy token)"

text \<open>The run is started and goes to the network.\<close>

definition goesOnline :: "env \<Rightarrow> world \<Rightarrow> bool" where
  "goesOnline e w = (\<not> cancelled e w \<and> isConnected e \<noteq> Some False)"

text \<open>
  The world in which a run that went to the network has its first response or thrown
  value, and the world in which the 401 branch has its second.
\<close>

definition afterFetch :: "env \<Rightarrow> world \<Rightarrow> world" where
  "afterFetch e w = snd (callGetErpSystems e (snd (showCached e w)))"

definition afterRetry :: "env \<Rightarrow> world \<Rightarrow> world" where
  "afterRetry e w =
     snd (callGetErpSystems e (suspend ((suspend (suspend w))\<lparr>delays := delays w @ [100]\<rparr>)))"

section \<open>Sample runs\<close>

definition systemCSA :: "jsnum \<Rightarrow> ErpSystem" where
  "systemCSA n = \<lparr>erp_id = ''1'', erp_name = ''CSA'', formCount = n\<rparr>"

definition payloadCSA :: "jsnum \<Rightarrow> jsval" where
  "payloadCSA n = JObj [(''data'', JArr [itemCSA n])]"

definition payloadNone :: jsval where
  "payloadNone = JObj [(''data'', JArr [])]"


definition error401 :: jsval where
  "error401 = JObj [(''response'', JObj [(''status'', JNum (Fin 401))])]"

definition errorNetwork :: jsval where
  "errorNetwork = JObj [(''message'', JStr ''Network request failed'')]"

definition errorNumericMessage :: jsval where
  "errorNumericMessage = JObj [(''message'', JNum (Fin 5))]"

text \<open>The component as mounted (\<^verbatim>\<open>useState([])\<close>, \<^verbatim>\<open>useState(true)\<close>) over a cache.\<close>

definition mounted :: "blob \<Rightarrow> world" where
  "mounted b =
     \<lparr>cacheBlob = b, erpSystems = [], loading = True, fetchCalls = 0, suspensions = 0,
      delays = []\<rparr>"

text \<open>
  Online, with a token at hand and a writable store; the first call of the fetch gives
  the first outcome, every later call the second.
\<close>

definition online :: "jsval + jsval \<Rightarrow> jsval + jsval \<Rightarrow> env" where
  "online first later =
     \<lparr>isConnected = Some True,
      getErpSystems = (\<lambda>k. if k = 0 then first else later),
      getIdToken = Inr (JStr ''token''),
      storeWritable = True,
      teardownAt = None\<rparr>"

text \<open>
  The component after a first run over an empty cache whose fetch succeeded and whose
  save the store refused: the fetched list is shown and the cache is still empty.
\<close>

definition afterRefusedSave :: world where
  "afterRefusedSave =
     snd (loadErpSystems1 sampleBuiltins
            ((online (Inr (payloadCSA (Fin 5))) (Inr (payloadCSA (Fin 5))))\<lparr>storeWritable := False\<rparr>)
            (mounted Absent))"

section \<open>A sample file system\<close>

text \<open>
  Folders and files by path; \<^verbatim>\<open>mkdir\<close> and \<^verbatim>\<open>writeFile\<close> throw under the denied
  directories and succeed elsewhere.
\<close>

record disk =
  folders :: "string list"
  files :: "(string \<times> string) list"

fun under :: "string list \<Rightarrow> string \<Rightarrow> bool" where
  "under [] path = False"
| "under (dir # dirs) path = (take (length dir) path = dir \<or> under dirs path)"

definition sampleRNFS :: "string list \<Rightarrow> disk RNFS" where
  "sampleRNFS denied =
     \<lparr> rnfs_exists = (\<lambda>path s. Inr (List.member (folders s) path \<or> map_of (files s) path \<noteq> None)),
       rnfs_mkdir = (\<lambda>path s.
          if under denied path then (Some (newError ''EACCES''), s)
          else (None, s\<lparr>folders := folders s @ [path]\<rparr>)),
       rnfs_writeFile = (\<lambda>path contents s.
          if under denied path then (Some (newError ''EACCES''), s)
          else (None, s\<lparr>files := (path, contents) # files s\<rparr>)) \<rparr>"

definition android :: platform where
  "android =
     \<lparr> platformOS = ''android'',
       DownloadDirectoryPath = ''/sdcard/Download'',
       ExternalStorageDirectoryPath = [],
       DocumentDirectoryPath = ''/data/app/files'' \<rparr>"

definition freshDevice :: "disk device" where
  "freshDevice = \<lparr> fs = \<lparr> folders = [''/sdcard/Download''], files = [] \<rparr>, calls = [] \<rparr>"

section \<open>Normalisation: lemmas\<close>

lemma candidateList_spec: "candidateList [getProp raw ''data'', raw] = candidatesBySpec raw"
  by (cases raw; cases "getProp raw ''data''"; simp add: candidatesBySpec_def)

lemma candidatesBySpec_falsy: "\<not> truthy raw \<Longrightarrow> candidatesBySpec raw = []"
  by (cases raw) (simp_all add: candidatesBySpec_def)

lemma candidateList_falsy: "\<not> truthy raw \<Longrightarrow> candidateList [getProp raw ''data'', raw] = []"
  by (cases raw) simp_all

lemma mapAndFilter_Nil: "mapAndFilter B [] = Inr []"
  by (simp add: mapAndFilter_def)

lemma normalize_candidates:
  "normalizeErpSystems B raw = mapAndFilter B (candidateList [getProp raw ''data'', raw])"
  by (cases "truthy raw")
     (simp_all add: normalizeErpSystems_def candidateList_falsy mapAndFilter_Nil
        del: candidateList.simps)

lemma mapToErpSystem_None: "(mapToErpSystem B item = Inr None) = (\<not> survives item)"
  by (auto simp add: mapToErpSystem_def survives_def split: sum.splits)

lemma mapToErpSystem_survivor:
  "survives item \<Longrightarrow>
     mapToErpSystem B item = (case toErpSystem B item of Inl t \<Rightarrow> Inl t | Inr r \<Rightarrow> Inr (Some r))"
  by (simp add: mapToErpSystem_def survives_def toErpSystem_def split: sum.splits)

lemma mapToErpSystem_Some:
  "mapToErpSystem B item = Inr (Some r) \<Longrightarrow> survives item \<and> toErpSystem B item = Inr r"
proof -
  assume a: "mapToErpSystem B item = Inr (Some r)"
  then have s: "survives item"
    using mapToErpSystem_None [of B item] by (cases "survives item") auto
  with a show ?thesis
    by (auto simp add: mapToErpSystem_survivor split: sum.splits)
qed

lemma mapAndFilter_Cons:
  "mapAndFilter B (x # xs) =
     (case mapToErpSystem B x of
        Inl t \<Rightarrow> Inl t
      | Inr y \<Rightarrow>
          (case mapAndFilter B xs of
             Inl t \<Rightarrow> Inl t
           | Inr ys \<Rightarrow> Inr (case y of None \<Rightarrow> ys | Some r \<Rightarrow> r # ys)))"
  by (simp add: mapAndFilter_def split: sum.splits option.splits)

lemma mapAndFilter_survivors:
  "mapAndFilter B xs = Inr out \<Longrightarrow> map Inr out = map (toErpSystem B) (filter survives xs)"
proof (induction xs arbitrary: out)
  case Nil
  then show ?case by (simp add: mapAndFilter_Nil)
next
  case (Cons x xs)
  from Cons.prems obtain y ys where
    y: "mapToErpSystem B x = Inr y" and ys: "mapAndFilter B xs = Inr ys"
    and out: "out = (case y of None \<Rightarrow> ys | Some r \<Rightarrow> r # ys)"
    by (auto simp add: mapAndFilter_Cons split: sum.splits)
  show ?case
  proof (cases y)
    case None
    with y have "\<not> survives x" by (simp add: mapToErpSystem_None)
    with None out Cons.IH [OF ys] show ?thesis by simp
  next
    case (Some r)
    with y have "survives x" "toErpSystem B x = Inr r"
      using mapToErpSystem_Some [of B x r] by simp_all
    with Some out Cons.IH [OF ys] show ?thesis by simp
  qed
qed





lemma toErpSystem_count:
  "toErpSystem B item = Inr r \<Longrightarrow>
     \<exists>n. ToNumber B (formCountValue item) = Inr n
       \<and> formCount r = (if isFinite n then n else Fin 0)"
  by (auto simp add: toErpSystem_def split: sum.splits)

lemma toErpSystem_finite: "toErpSystem B item = Inr r \<Longrightarrow> isFinite (formCount r)"
  using toErpSystem_count [of B item r] by auto

lemma formCountValue_firstPresent:
  "formCountValue item =
     firstPresent [getProp item ''formCount'', getProp item ''form_count'',
                   getProp item ''formsCount'', getProp item ''forms_count''] (JNum (Fin 0))"
  by (simp add: formCountValue_def coalesce_def)

lemma survivors_finite:
  assumes "map Inr out = map (toErpSystem B) xs"
  shows "\<forall>r \<in> set out. isFinite (formCount r)"
  using assms
proof (induction out arbitrary: xs)
  case Nil
  then show ?case by simp
next
  case (Cons r out)
  then obtain x xs' where "xs = x # xs'" "toErpSystem B x = Inr r"
    "map Inr out = map (toErpSystem B) xs'"
    by (cases xs) auto
  with Cons.IH [of xs'] toErpSystem_finite [of B x r] show ?case by simp
qed

section \<open>Runs of the screens: lemmas\<close>

lemma cancelled_never [simp]: "teardownAt e = None \<Longrightarrow> cancelled e w = False"
  by (simp add: cancelled_def)

lemma load_suspend [simp]: "loadErpSystemsFromCache (suspend w) = loadErpSystemsFromCache w"
  by (simp add: loadErpSystemsFromCache_def suspend_def)

lemma load_delays [simp]:
  "loadErpSystemsFromCache (w\<lparr>delays := d\<rparr>) = loadErpSystemsFromCache w"
  by (simp add: loadErpSystemsFromCache_def)

lemma load_cache_cong:
  "cacheBlob w1 = cacheBlob w2 \<Longrightarrow> loadErpSystemsFromCache w1 = loadErpSystemsFromCache w2"
  by (simp add: loadErpSystemsFromCache_def)

lemma orEmpty_when_empty: "\<not> nonEmpty c \<Longrightarrow> orEmpty c = []"
  by (cases c) simp_all

lemma suspend_cache [simp]: "cacheBlob (suspend w) = cacheBlob w"
  by (simp add: suspend_def)

lemma suspend_calls [simp]: "fetchCalls (suspend w) = fetchCalls w"
  by (simp add: suspend_def)

lemma suspend_delays [simp]: "delays (suspend w) = delays w"
  by (simp add: suspend_def)

lemma suspend_shown [simp]: "erpSystems (suspend w) = erpSystems w"
  by (simp add: suspend_def)

text \<open>The fall back.\<close>

lemma fallback_cache [simp]: "cacheBlob (fallbackToCache e c w) = cacheBlob w"
  by (simp add: fallbackToCache_def Let_def suspend_def)

lemma fallback_calls [simp]: "fetchCalls (fallbackToCache e c w) = fetchCalls w"
  by (simp add: fallbackToCache_def Let_def suspend_def)

lemma fallback_delays [simp]: "delays (fallbackToCache e c w) = delays w"
  by (simp add: fallbackToCache_def Let_def suspend_def)

lemma fallback_loading [simp]: "loading (fallbackToCache e c w) = loading w"
  by (simp add: fallbackToCache_def Let_def suspend_def)

lemma fallback_shown:
  "teardownAt e = None \<Longrightarrow> loadErpSystemsFromCache w = c \<Longrightarrow>
     erpSystems (fallbackToCache e c w) = orEmpty c"
  by (simp add: fallbackToCache_def Let_def orEmpty_when_empty)

text \<open>The end of the run.\<close>

lemma stop_cache [simp]: "cacheBlob (stopLoading e w) = cacheBlob w"
  by (simp add: stopLoading_def)

lemma stop_calls [simp]: "fetchCalls (stopLoading e w) = fetchCalls w"
  by (simp add: stopLoading_def)

lemma stop_delays [simp]: "delays (stopLoading e w) = delays w"
  by (simp add: stopLoading_def)

lemma stop_shown [simp]: "erpSystems (stopLoading e w) = erpSystems w"
  by (simp add: stopLoading_def)

lemma stop_loading: "teardownAt e = None \<Longrightarrow> loading (stopLoading e w) = False"
  by (simp add: stopLoading_def)

text \<open>The start of the run.\<close>

lemma showCached_fst [simp]: "fst (showCached e w) = loadErpSystemsFromCache w"
  by (simp add: showCached_def Let_def loadErpSystemsFromCache_def suspend_def)

lemma showCached_cache [simp]: "cacheBlob (snd (showCached e w)) = cacheBlob w"
  by (simp add: showCached_def Let_def suspend_def)

lemma showCached_calls [simp]: "fetchCalls (snd (showCached e w)) = fetchCalls w"
  by (simp add: showCached_def Let_def suspend_def)

lemma showCached_delays [simp]: "delays (snd (showCached e w)) = delays w"
  by (simp add: showCached_def Let_def suspend_def)

lemma showCached_load [simp]:
  "loadErpSystemsFromCache (snd (showCached e w)) = loadErpSystemsFromCache w"
  by (rule load_cache_cong) simp

lemma showCached_shown:
  "teardownAt e = None \<Longrightarrow>
     erpSystems (snd (showCached e w)) =
       (if nonEmpty (loadErpSystemsFromCache w) then orEmpty (loadErpSystemsFromCache w)
        else erpSystems w)"
  by (simp add: showCached_def Let_def suspend_def loadErpSystemsFromCache_def)

text \<open>The fetch.\<close>

lemma call_fst [simp]: "fst (callGetErpSystems e w) = getErpSystems e (fetchCalls w)"
  by (simp add: callGetErpSystems_def)

lemma call_cache [simp]: "cacheBlob (snd (callGetErpSystems e w)) = cacheBlob w"
  by (simp add: callGetErpSystems_def suspend_def)

lemma call_calls [simp]: "fetchCalls (snd (callGetErpSystems e w)) = Suc (fetchCalls w)"
  by (simp add: callGetErpSystems_def suspend_def)

lemma call_delays [simp]: "delays (snd (callGetErpSystems e w)) = delays w"
  by (simp add: callGetErpSystems_def suspend_def)

lemma call_shown [simp]: "erpSystems (snd (callGetErpSystems e w)) = erpSystems w"
  by (simp add: callGetErpSystems_def suspend_def)

lemma call_load [simp]:
  "loadErpSystemsFromCache (snd (callGetErpSystems e w)) = loadErpSystemsFromCache w"
  by (rule load_cache_cong) simp

text \<open>A normalised response in the first screen.\<close>

lemma apply_cache:
  "cacheBlob (applySystems e systems w) =
     (if storeWritable e then Stored systems else cacheBlob w)"
  by (simp add: applySystems_def saveErpSystemsToCache_def suspend_def)

lemma apply_calls [simp]: "fetchCalls (applySystems e systems w) = fetchCalls w"
  by (simp add: applySystems_def saveErpSystemsToCache_def suspend_def)

lemma apply_delays [simp]: "delays (applySystems e systems w) = delays w"
  by (simp add: applySystems_def saveErpSystemsToCache_def suspend_def)

lemma apply_shown:
  "teardownAt e = None \<Longrightarrow> erpSystems (applySystems e systems w) = systems"
  by (simp add: applySystems_def saveErpSystemsToCache_def suspend_def)

text \<open>A normalised response in the second screen.\<close>

lemma apply2_cache:
  "cacheBlob (applySystems2 e systems w) =
     (if \<not> cancelled e w \<and> systems \<noteq> [] \<and> storeWritable e
      then Stored systems else cacheBlob w)"
  by (simp add: applySystems2_def saveErpSystemsToCache_def suspend_def)

lemma apply2_calls [simp]: "fetchCalls (applySystems2 e systems w) = fetchCalls w"
  by (simp add: applySystems2_def saveErpSystemsToCache_def suspend_def)

lemma apply2_delays [simp]: "delays (applySystems2 e systems w) = delays w"
  by (simp add: applySystems2_def saveErpSystemsToCache_def suspend_def)

lemma apply2_shown:
  "teardownAt e = None \<Longrightarrow>
     erpSystems (applySystems2 e systems w) = (if systems \<noteq> [] then systems else erpSystems w)"
  by (simp add: applySystems2_def saveErpSystemsToCache_def suspend_def)

lemma afterRetry_cache [simp]: "cacheBlob (afterRetry e w) = cacheBlob w"
  by (simp add: afterRetry_def)

lemma afterRetry_calls [simp]: "fetchCalls (afterRetry e w) = Suc (fetchCalls w)"
  by (simp add: afterRetry_def)

lemma afterRetry_delays [simp]: "delays (afterRetry e w) = delays w @ [100]"
  by (simp add: afterRetry_def)

lemma afterRetry_load [simp]:
  "loadErpSystemsFromCache (afterRetry e w) = loadErpSystemsFromCache w"
  by (rule load_cache_cong) simp

lemma retry_no_token:
  "\<not> tokenObtained e \<Longrightarrow>
     retryAfterRefresh B e c w = fallbackToCache e c (suspend (suspend w))"
  by (simp add: retryAfterRefresh_def tokenObtained_def Let_def split: sum.splits)

lemma retry_fails:
  "tokenObtained e \<Longrightarrow> getErpSystems e (fetchCalls w) = Inl err \<Longrightarrow>
     retryAfterRefresh B e c w = fallbackToCache e c (afterRetry e w)"
  by (simp add: retryAfterRefresh_def tokenObtained_def Let_def callGetErpSystems_def suspend_def
        afterRetry_def split: sum.splits)


lemma retry_succeeds:
  "tokenObtained e \<Longrightarrow> getErpSystems e (fetchCalls w) = Inr r \<Longrightarrow>
     normalizeErpSystems B r = Inr systems \<Longrightarrow>
     retryAfterRefresh B e c w = applySystems e systems (afterRetry e w)"
  by (simp add: retryAfterRefresh_def tokenObtained_def Let_def callGetErpSystems_def suspend_def
        afterRetry_def split: sum.splits)


text \<open>The catch block of the first screen.\<close>

lemma catch_raises:
  "is401Error err = None \<Longrightarrow> catchFetchError B e c err w = (Rejected, stopLoading e w)"
  by (simp add: catchFetchError_def)

lemma catch_401:
  "is401Error err = Some True \<Longrightarrow>
     catchFetchError B e c err w = (Resolved, stopLoading e (retryAfterRefresh B e c w))"
  by (simp add: catchFetchError_def)

lemma catch_other:
  "is401Error err = Some False \<Longrightarrow>
     catchFetchError B e c err w = (Resolved, stopLoading e (fallbackToCache e c w))"
  by (simp add: catchFetchError_def)


lemma catch_cache_kept:
  "is401Error err \<noteq> Some True \<Longrightarrow> cacheBlob (snd (catchFetchError B e c err w)) = cacheBlob w"
  by (simp add: catchFetchError_def split: option.splits)

lemma afterFetch_cache [simp]: "cacheBlob (afterFetch e w) = cacheBlob w"
  by (simp add: afterFetch_def)

lemma afterFetch_calls [simp]: "fetchCalls (afterFetch e w) = Suc (fetchCalls w)"
  by (simp add: afterFetch_def)

lemma afterFetch_delays [simp]: "delays (afterFetch e w) = delays w"
  by (simp add: afterFetch_def)

lemma afterFetch_load [simp]:
  "loadErpSystemsFromCache (afterFetch e w) = loadErpSystemsFromCache w"
  by (rule load_cache_cong) simp

lemma afterFetch_shown:
  "teardownAt e = None \<Longrightarrow>
     erpSystems (afterFetch e w) =
       (if nonEmpty (loadErpSystemsFromCache w) then orEmpty (loadErpSystemsFromCache w)
        else erpSystems w)"
  by (simp add: afterFetch_def showCached_shown)

lemma run1_online:
  "goesOnline e w \<Longrightarrow>
     loadErpSystems1 B e w =
       (case getErpSystems e (fetchCalls w) of
          Inr response \<Rightarrow>
            (case normalizeErpSystems B response of
               Inl thrown \<Rightarrow>
                 catchFetchError B e (loadErpSystemsFromCache w) thrown (afterFetch e w)
             | Inr systems \<Rightarrow>
                 (Resolved, stopLoading e (applySystems e systems (afterFetch e w))))
        | Inl error \<Rightarrow>
            catchFetchError B e (loadErpSystemsFromCache w) error (afterFetch e w))"
  apply (simp add: loadErpSystems1_def goesOnline_def afterFetch_def split: prod.splits)
  apply (intro allI impI)
  subgoal for cached w3 r w4
    using showCached_fst [of e w] call_fst [of e w3] showCached_calls [of e w]
    by (auto simp add: afterFetch_def split: sum.splits)
  done

lemma run2_online:
  "goesOnline e w \<Longrightarrow>
     loadErpSystems2 B e w =
       (case getErpSystems e (fetchCalls w) of
          Inr response \<Rightarrow>
            (case normalizeErpSystems B response of
               Inl thrown \<Rightarrow>
                 (Resolved, stopLoading e
                    (fallbackToCache e (loadErpSystemsFromCache w) (afterFetch e w)))
             | Inr systems \<Rightarrow>
                 (Resolved, stopLoading e (applySystems2 e systems (afterFetch e w))))
        | Inl error \<Rightarrow>
            (Resolved, stopLoading e
               (fallbackToCache e (loadErpSystemsFromCache w) (afterFetch e w))))"
  apply (simp add: loadErpSystems2_def goesOnline_def afterFetch_def split: prod.splits)
  apply (intro allI impI)
  subgoal for cached w3 r w4
    using showCached_fst [of e w] call_fst [of e w3] showCached_calls [of e w]
    by (auto simp add: afterFetch_def split: sum.splits)
  done





text \<open>Failed fetches in general.\<close>

lemma fetchFails1_cases:
  assumes "fetchFails1 e w"
  obtains err where "getErpSystems e (fetchCalls w) = Inl err" "is401Error err = Some False"
  | err where "getErpSystems e (fetchCalls w) = Inl err" "is401Error err = Some True"
      "\<not> tokenObtained e"
  | err err2 where "getErpSystems e (fetchCalls w) = Inl err" "is401Error err = Some True"
      "tokenObtained e" "getErpSystems e (Suc (fetchCalls w)) = Inl err2"
  using assms
  by (auto simp add: fetchFails1_def refreshAndRetryFails_def tokenObtained_def isl_def
      split: sum.splits option.splits if_splits)

lemma run1_failed_cache:
  assumes "goesOnline e w" "fetchFails1 e w"
  shows "cacheBlob (snd (loadErpSystems1 B e w)) = cacheBlob w"
  using assms(2)
proof (cases rule: fetchFails1_cases)
  case (1 err)
  then show ?thesis by (simp add: run1_online [OF assms(1)] catch_other)
next
  case (2 err)
  then show ?thesis by (simp add: run1_online [OF assms(1)] catch_401 retry_no_token)
next
  case (3 err err2)
  then show ?thesis by (simp add: run1_online [OF assms(1)] catch_401 retry_fails)
qed

lemma run1_failed_shown:
  assumes "goesOnline e w" "fetchFails1 e w" "teardownAt e = None"
  shows "erpSystems (snd (loadErpSystems1 B e w)) = orEmpty (loadErpSystemsFromCache w)"
  using assms(2)
proof (cases rule: fetchFails1_cases)
  case (1 err)
  then show ?thesis
    by (simp add: run1_online [OF assms(1)] catch_other fallback_shown [OF assms(3)])
next
  case (2 err)
  then show ?thesis
    by (simp add: run1_online [OF assms(1)] catch_401 retry_no_token fallback_shown [OF assms(3)])
next
  case (3 err err2)
  then show ?thesis
    by (simp add: run1_online [OF assms(1)] catch_401 retry_fails fallback_shown [OF assms(3)])
qed


lemma run1_classifier_raises:
  assumes "goesOnline e w" "getErpSystems e (fetchCalls w) = Inl err" "is401Error err = None"
  shows "fst (loadErpSystems1 B e w) = Rejected"
    and "cacheBlob (snd (loadErpSystems1 B e w)) = cacheBlob w"
    and "teardownAt e = None \<Longrightarrow>
           erpSystems (snd (loadErpSystems1 B e w)) =
             (if nonEmpty (loadErpSystemsFromCache w) then orEmpty (loadErpSystemsFromCache w)
              else erpSystems w)"
  using assms(2,3) by (simp_all add: run1_online [OF assms(1)] catch_raises afterFetch_shown)

text \<open>The 401 branch of a whole run.\<close>

lemma fails401_cases:
  assumes "fails401 e w"
  obtains err where "getErpSystems e (fetchCalls w) = Inl err" "is401Error err = Some True"
  using assms by (auto simp add: fails401_def split: sum.splits)

lemma run1_401:
  assumes "goesOnline e w" "fails401 e w"
  shows "loadErpSystems1 B e w =
           (Resolved, stopLoading e
              (retryAfterRefresh B e (loadErpSystemsFromCache w) (afterFetch e w)))"
  using assms(2)
  by (cases rule: fails401_cases) (simp add: run1_online [OF assms(1)] catch_401)




lemma run1_401_retry_succeeds:
  assumes "goesOnline e w" "fails401 e w" "tokenObtained e"
    "getErpSystems e (Suc (fetchCalls w)) = Inr r" "normalizeErpSystems B r = Inr systems"
  shows "fetchCalls (snd (loadErpSystems1 B e w)) = fetchCalls w + 2"
    and "delays (snd (loadErpSystems1 B e w)) = delays w @ [100]"
    and "cacheBlob (snd (loadErpSystems1 B e w)) =
           (if storeWritable e then Stored systems else cacheBlob w)"
    and "teardownAt e = None \<Longrightarrow> erpSystems (snd (loadErpSystems1 B e w)) = systems"
    and "teardownAt e = None \<Longrightarrow> loading (snd (loadErpSystems1 B e w)) = False"
    and "fst (loadErpSystems1 B e w) = Resolved"
  using assms(4,5)
  by (simp_all add: run1_401 [OF assms(1,2)] retry_succeeds [OF assms(3)] apply_cache
        apply_shown stop_loading)




lemma token_cancelled [simp]: "cancelled (e\<lparr>getIdToken := t\<rparr>) w = cancelled e w"
  by (simp add: cancelled_def)

lemma token_showCached [simp]: "showCached (e\<lparr>getIdToken := t\<rparr>) w = showCached e w"
  by (simp add: showCached_def)

lemma token_stopLoading [simp]: "stopLoading (e\<lparr>getIdToken := t\<rparr>) w = stopLoading e w"
  by (simp add: stopLoading_def)

lemma token_call [simp]:
  "callGetErpSystems (e\<lparr>getIdToken := t\<rparr>) w = callGetErpSystems e w"
  by (simp add: callGetErpSystems_def)

lemma token_fallback [simp]:
  "fallbackToCache (e\<lparr>getIdToken := t\<rparr>) c w = fallbackToCache e c w"
  by (simp add: fallbackToCache_def)

lemma token_apply2 [simp]:
  "applySystems2 (e\<lparr>getIdToken := t\<rparr>) systems w = applySystems2 e systems w"
  by (simp add: applySystems2_def saveErpSystemsToCache_def)


text \<open>A fetch that succeeds.\<close>

lemma run1_success:
  assumes "goesOnline e w" "getErpSystems e (fetchCalls w) = Inr r"
    "normalizeErpSystems B r = Inr systems"
  shows "cacheBlob (snd (loadErpSystems1 B e w)) =
           (if storeWritable e then Stored systems else cacheBlob w)"
    and "teardownAt e = None \<Longrightarrow> erpSystems (snd (loadErpSystems1 B e w)) = systems"
    and "teardownAt e = None \<Longrightarrow> loading (snd (loadErpSystems1 B e w)) = False"
    and "fst (loadErpSystems1 B e w) = Resolved"
    and "fetchCalls (snd (loadErpSystems1 B e w)) = fetchCalls w + 1"
  using assms(2,3)
  by (simp_all add: run1_online [OF assms(1)] apply_cache apply_shown stop_loading)

lemma run2_success:
  assumes "goesOnline e w" "getErpSystems e (fetchCalls w) = Inr r"
    "normalizeErpSystems B r = Inr systems" "teardownAt e = None"
  shows "cacheBlob (snd (loadErpSystems2 B e w)) =
           (if systems \<noteq> [] \<and> storeWritable e then Stored systems else cacheBlob w)"
    and "erpSystems (snd (loadErpSystems2 B e w)) =
           (if systems \<noteq> [] then systems
            else if nonEmpty (loadErpSystemsFromCache w) then orEmpty (loadErpSystemsFromCache w)
            else erpSystems w)"
    and "loading (snd (loadErpSystems2 B e w)) = False"
    and "fst (loadErpSystems2 B e w) = Resolved"
  using assms(2,3,4)
  by (simp_all add: run2_online [OF assms(1)] apply2_cache apply2_shown stop_loading
        afterFetch_shown)





section \<open>Export: lemmas\<close>

lemma write_refines:
  "(fst (writeToDirectory R name payload dir d), fs (snd (writeToDirectory R name payload dir d)))
     = (case candidateAttempt R name payload dir (fs d) of
          (None, s') \<Rightarrow> (Inr (dir @ ''/'' @ name), s')
        | (Some thrown, s') \<Rightarrow> (Inl thrown, s'))"
  by (simp add: writeToDirectory_def candidateAttempt_def ensureDirectory_def verifyWritten_def
        callExists_def callMkdir_def callWriteFile_def
        split: prod.splits sum.splits option.splits)

lemma write_success:
  "writeToDirectory R name payload dir d = (Inr path, d') \<Longrightarrow>
     path = dir @ ''/'' @ name \<and> candidateAttempt R name payload dir (fs d) = (None, fs d')"
  using write_refines [of R name payload dir d]
  by (auto split: prod.splits option.splits)

lemma write_failure:
  "writeToDirectory R name payload dir d = (Inl thrown, d') \<Longrightarrow>
     candidateAttempt R name payload dir (fs d) = (Some thrown, fs d')"
  using write_refines [of R name payload dir d]
  by (auto split: prod.splits option.splits)

lemma attempt_success:
  "candidateAttempt R name payload dir (fs d) = (None, s') \<Longrightarrow>
     \<exists>d'. writeToDirectory R name payload dir d = (Inr (dir @ ''/'' @ name), d') \<and> fs d' = s'"
  using write_refines [of R name payload dir d]
  by (cases "writeToDirectory R name payload dir d") auto

lemma attempt_failure:
  "candidateAttempt R name payload dir (fs d) = (Some thrown, s') \<Longrightarrow>
     \<exists>d'. writeToDirectory R name payload dir d = (Inl thrown, d') \<and> fs d' = s'"
  using write_refines [of R name payload dir d]
  by (cases "writeToDirectory R name payload dir d") auto

lemma attempt_steps:
  "candidateAttempt R name payload dir s = (None, s') \<Longrightarrow>
     \<exists>s1. ensureDirectory R dir s = (None, s1)
       \<and> rnfs_writeFile R (dir @ ''/'' @ name) payload s1 = (None, s')
       \<and> rnfs_exists R (dir @ ''/'' @ name) s' = Inr True"
  by (auto simp add: candidateAttempt_def verifyWritten_def
        split: prod.splits option.splits sum.splits if_splits)

lemma write_calls:
  "writeToDirectory R name payload dir d = (Inr path, d') \<Longrightarrow>
     \<exists>cs. calls d' = cs @ [WriteFile path payload, Exists path]"
  by (auto simp add: writeToDirectory_def callExists_def callMkdir_def callWriteFile_def
        split: prod.splits sum.splits option.splits if_splits)

lemma failures_refines:
  "failures R name payload dirs d = Some (throwns, d') \<Longrightarrow>
     allFail R name payload dirs (fs d) = Some (throwns, fs d')"
proof (induction dirs arbitrary: d throwns)
  case Nil
  then show ?case by simp
next
  case (Cons dir rest)
  from Cons.prems obtain thrown d1 ts where
    w: "writeToDirectory R name payload dir d = (Inl thrown, d1)"
    and f: "failures R name payload rest d1 = Some (ts, d')" and t: "throwns = thrown # ts"
    by (auto split: prod.splits sum.splits option.splits)
  from write_failure [OF w] Cons.IH [OF f] t show ?case by simp
qed

lemma allFail_failures:
  "allFail R name payload dirs (fs d) = Some (throwns, s') \<Longrightarrow>
     \<exists>d'. failures R name payload dirs d = Some (throwns, d') \<and> fs d' = s'"
proof (induction dirs arbitrary: d throwns)
  case Nil
  then show ?case by simp
next
  case (Cons dir rest)
  from Cons.prems obtain thrown s1 ts where
    a: "candidateAttempt R name payload dir (fs d) = (Some thrown, s1)"
    and f: "allFail R name payload rest s1 = Some (ts, s')" and t: "throwns = thrown # ts"
    by (auto split: prod.splits option.splits)
  from attempt_failure [OF a] obtain d1 where
    w: "writeToDirectory R name payload dir d = (Inl thrown, d1)" and s: "fs d1 = s1"
    by blast
  from f s have "allFail R name payload rest (fs d1) = Some (ts, s')" by simp
  from Cons.IH [OF this] obtain d' where
    "failures R name payload rest d1 = Some (ts, d')" "fs d' = s'"
    by blast
  with w t show ?case by simp
qed

lemma try_not_empty: "fst (tryDirectories R name payload dirs lastError d) \<noteq> Empty"
  by (induction dirs arbitrary: lastError d) (auto split: prod.splits sum.splits)

lemma try_error:
  "tryDirectories R name payload dirs lastError d = (Error cause, d') \<Longrightarrow>
     \<exists>throwns. failures R name payload dirs d = Some (throwns, d')
       \<and> length throwns = length dirs \<and> cause = last (lastError # throwns)"
proof (induction dirs arbitrary: lastError d)
  case Nil
  then show ?case by simp
next
  case (Cons dir rest)
  show ?case
  proof (cases "writeToDirectory R name payload dir d")
    case (Pair res d1)
    show ?thesis
    proof (cases res)
      case (Inl thrown)
      with Pair Cons.prems have "tryDirectories R name payload rest thrown d1 = (Error cause, d')"
        by simp
      from Cons.IH [OF this] obtain throwns where
        "failures R name payload rest d1 = Some (throwns, d')"
        "length throwns = length rest" "cause = last (thrown # throwns)"
        by blast
      with Pair Inl show ?thesis by simp
    next
      case (Inr path)
      with Pair Cons.prems show ?thesis by simp
    qed
  qed
qed

lemma failures_try:
  "failures R name payload dirs d = Some (throwns, d') \<Longrightarrow>
     tryDirectories R name payload dirs lastError d = (Error (last (lastError # throwns)), d')"
proof (induction dirs arbitrary: lastError d throwns)
  case Nil
  then show ?case by simp
next
  case (Cons dir rest)
  then show ?case
    by (auto split: prod.splits sum.splits option.splits)
qed

lemma failures_length:
  "failures R name payload dirs d = Some (throwns, d') \<Longrightarrow> length throwns = length dirs"
  using try_error [OF failures_try, of R name payload dirs d throwns d' JNull] by simp

lemma try_success:
  "tryDirectories R name payload dirs lastError d = (Success path name' dir, d') \<Longrightarrow>
     name' = name \<and>
     (\<exists>pre post throwns d1. dirs = pre @ dir # post
        \<and> failures R name payload pre d = Some (throwns, d1)
        \<and> writeToDirectory R name payload dir d1 = (Inr path, d'))"
proof (induction dirs arbitrary: lastError d)
  case Nil
  then show ?case by simp
next
  case (Cons dir0 rest)
  show ?case
  proof (cases "writeToDirectory R name payload dir0 d")
    case (Pair res d1)
    show ?thesis
    proof (cases res)
      case (Inl thrown)
      with Pair Cons.prems
      have "tryDirectories R name payload rest thrown d1 = (Success path name' dir, d')"
        by simp
      from Cons.IH [OF this] obtain pre post throwns d2 where
        *: "name' = name" "rest = pre @ dir # post"
        "failures R name payload pre d1 = Some (throwns, d2)"
        "writeToDirectory R name payload dir d2 = (Inr path, d')"
        by blast
      have "dir0 # rest = (dir0 # pre) @ dir # post" using * by simp
      moreover have "failures R name payload (dir0 # pre) d = Some (thrown # throwns, d2)"
        using Pair Inl * by simp
      ultimately show ?thesis using * by blast
    next
      case (Inr p)
      with Pair Cons.prems have "name' = name" "dir = dir0" "path = p" "d' = d1" by simp_all
      moreover have "dir0 # rest = [] @ dir0 # rest" by simp
      moreover have "failures R name payload [] d = Some ([], d)" by simp
      ultimately show ?thesis using Pair Inr by blast
    qed
  qed
qed

lemma failures_then_success:
  "failures R name payload pre d = Some (throwns, d1) \<Longrightarrow>
     writeToDirectory R name payload dir d1 = (Inr path, d') \<Longrightarrow>
     tryDirectories R name payload (pre @ dir # post) lastError d = (Success path name dir, d')"
proof (induction pre arbitrary: lastError d throwns)
  case Nil
  then show ?case by simp
next
  case (Cons dir0 pre)
  then show ?case
    by (auto split: prod.splits sum.splits option.splits)
qed

lemma targets_nonempty: "targetDirectories p \<noteq> []"
  by (simp add: targetDirectories_def)

lemma export_nonempty:
  "isArray queue \<and> elems queue \<noteq> [] \<Longrightarrow>
     exportPendingFormsToFile R p stringify isoNow queue d =
       tryDirectories R (buildFileName isoNow) (stringify queue) (targetDirectories p) JNull d"
  by (simp add: exportPendingFormsToFile_def)

section \<open>Unfolding the samples\<close>

lemmas sample_item_defs =
  itemCSA_def itemIdZero_def itemIdEmptyArray_def itemTitled_def itemIdObject_def
  resolveId_def resolveName_def formCountValue_def coalesce_def

lemmas sample_builtin_defs =
  sampleBuiltins_def sampleNumberToString_def sampleStringToNumber_def digitValue_def

lemmas normalize_defs =
  normalizeErpSystems_def mapAndFilter_def mapToErpSystem_def

lemmas run_defs =
  loadErpSystems1_def loadErpSystems2_def showCached_def stopLoading_def fallbackToCache_def
  applySystems_def applySystems2_def retryAfterRefresh_def catchFetchError_def
  callGetErpSystems_def saveErpSystemsToCache_def loadErpSystemsFromCache_def suspend_def
  cancelled_def is401Error_def messageIncludes_def normalize_defs

lemmas sample_run_defs =
  online_def mounted_def systemCSA_def payloadCSA_def payloadNone_def error401_def
  errorNetwork_def errorNumericMessage_def goesOnline_def fetchFails1_def fetchFails2_def
  fails401_def tokenObtained_def refreshAndRetryFails_def

lemmas sample_eval =
  sample_run_defs is401Error_def messageIncludes_def loadErpSystemsFromCache_def cancelled_def
  normalize_defs sample_item_defs

lemmas sample_fs_defs =
  buildFileName_def targetDirectories_def newError_def sampleRNFS_def android_def
  freshDevice_def candidateAttempt_def ensureDirectory_def verifyWritten_def

lemma afterRefusedSave_eval:
  "afterRefusedSave =
     \<lparr>cacheBlob = Absent, erpSystems = [systemCSA (Fin 5)], loading = False, fetchCalls = 1,
      suspensions = 3, delays = []\<rparr>"
  by (simp add: afterRefusedSave_def run_defs sample_run_defs sample_item_defs)

lemma normalize_CSA [simp]:
  "normalizeErpSystems sampleBuiltins (payloadCSA n)
     = Inr [\<lparr>erp_id = ''1'', erp_name = ''CSA'', formCount = (if isFinite n then n else Fin 0)\<rparr>]"
  by (simp add: normalize_defs payloadCSA_def sample_item_defs)

section \<open>The claims\<close>

text \<open>
  C1. The claim fails where the first screen's classification of the thrown value
  raises. A fetch that rejects with a value whose message is a number, or with
  \<^verbatim>\<open>null\<close>, makes \<^verbatim>\<open>is401Error\<close> raise inside the catch block: the run rejects, no
  fall back runs and nothing is shown anew. Over an empty cache, with a list left on
  screen by an earlier run whose save the store refused, that list stays shown instead
  of the empty list. The second screen, which does not classify, falls back to the
  empty list on the same run.
\<close>

theorem C1_classifier_raises:
  "erpSystems afterRefusedSave = [systemCSA (Fin 5)]
   \<and> loadErpSystemsFromCache afterRefusedSave = None
   \<and> is401Error errorNumericMessage = None
   \<and> is401Error JNull = None
   \<and> fst (loadErpSystems1 sampleBuiltins
        (online (Inl errorNumericMessage) (Inl errorNumericMessage)) afterRefusedSave) = Rejected
   \<and> erpSystems (snd (loadErpSystems1 sampleBuiltins
        (online (Inl errorNumericMessage) (Inl errorNumericMessage)) afterRefusedSave))
       = [systemCSA (Fin 5)]
   \<and> fst (loadErpSystems1 sampleBuiltins (online (Inl JNull) (Inl JNull)) afterRefusedSave)
       = Rejected
   \<and> erpSystems (snd (loadErpSystems1 sampleBuiltins (online (Inl JNull) (Inl JNull))
        afterRefusedSave)) = [systemCSA (Fin 5)]
   \<and> fst (loadErpSystems2 sampleBuiltins
        (online (Inl errorNumericMessage) (Inl errorNumericMessage)) afterRefusedSave) = Resolved
   \<and> erpSystems (snd (loadErpSystems2 sampleBuiltins
        (online (Inl errorNumericMessage) (Inl errorNumericMessage)) afterRefusedSave)) = []"
  by (simp add: afterRefusedSave_eval run_defs sample_run_defs)




text \<open>
  C3. A run torn down while its fetch is awaited (the flag is set during the second
  await) still writes the response to the cache in the first screen, where the save is
  outside the \<^verbatim>\<open>!cancelled\<close> test; the second screen, given the same run, leaves the
  cache alone. And in either screen a run torn down while the second cache read of the
  fall back is awaited still sets the list shown.
\<close>

theorem C3_cancelled_run_writes:
  "cancelled ((online (Inr (payloadCSA (Fin 5))) (Inl errorNetwork))\<lparr>teardownAt := Some 2\<rparr>)
     (snd (callGetErpSystems ((online (Inr (payloadCSA (Fin 5))) (Inl errorNetwork))\<lparr>teardownAt := Some 2\<rparr>)
        (snd (showCached ((online (Inr (payloadCSA (Fin 5))) (Inl errorNetwork))\<lparr>teardownAt := Some 2\<rparr>)
           (mounted (Stored [systemCSA (Fin 2)]))))))
   \<and> cacheBlob (snd (loadErpSystems1 sampleBuiltins
        ((online (Inr (payloadCSA (Fin 5))) (Inl errorNetwork))\<lparr>teardownAt := Some 2\<rparr>)
        (mounted (Stored [systemCSA (Fin 2)])))) = Stored [systemCSA (Fin 5)]
   \<and> cacheBlob (snd (loadErpSystems2 sampleBuiltins
        ((online (Inr (payloadCSA (Fin 5))) (Inl errorNetwork))\<lparr>teardownAt := Some 2\<rparr>)
        (mounted (Stored [systemCSA (Fin 2)])))) = Stored [systemCSA (Fin 2)]
   \<and> erpSystems (snd (loadErpSystems2 sampleBuiltins
        ((online (Inl errorNetwork) (Inl errorNetwork))\<lparr>teardownAt := Some 3\<rparr>)
        ((mounted Absent)\<lparr>erpSystems := [systemCSA (Fin 2)]\<rparr>))) = []"
  by (simp add: run_defs sample_run_defs sample_item_defs)

text \<open>
  C4. For every raw payload, the list \<^verbatim>\<open>normalizeErpSystems\<close> maps over is the one
  found in the order \<^verbatim>\<open>raw.data\<close>, then \<^verbatim>\<open>raw\<close> itself, then \<^verbatim>\<open>raw.data.data\<close>, and
  empty when none of them is a sequence. The source's loop looks at \<^verbatim>\<open>raw.data\<close>,
  \<^verbatim>\<open>raw.data.data\<close>, \<^verbatim>\<open>raw\<close>; the two orders pick the same list, since an array has
  no \<^verbatim>\<open>data\<close> property.
\<close>

theorem C4_candidate_priority:
  "normalizeErpSystems B raw = mapAndFilter B (candidatesBySpec raw)
   \<and> candidateList [getProp raw ''data'', raw] = candidatesBySpec raw"
  using normalize_candidates [of B raw] candidateList_spec [of raw] by simp

theorem C4_candidate_priority_witness:
  "normalizeErpSystems sampleBuiltins (JObj [(''data'', JObj [(''data'', JArr [itemCSA (Fin 2)])])])
     = Inr [\<lparr>erp_id = ''1'', erp_name = ''CSA'', formCount = Fin 2\<rparr>]
   \<and> candidatesBySpec (JObj [(''data'', JObj [(''data'', JArr [itemCSA (Fin 2)])])])
     = [itemCSA (Fin 2)]"
  using C4_candidate_priority
    [of sampleBuiltins "JObj [(''data'', JObj [(''data'', JArr [itemCSA (Fin 2)])])]"]
  by (simp add: normalize_defs sample_item_defs candidatesBySpec_def)







text \<open>
  C7, as the code has it. The \<^verbatim>\<open>formCount\<close> of a surviving item is a finite number: the
  first of \<^verbatim>\<open>formCount\<close>, \<^verbatim>\<open>form_count\<close>, \<^verbatim>\<open>formsCount\<close>, \<^verbatim>\<open>forms_count\<close> that is
  neither \<^verbatim>\<open>undefined\<close> nor \<^verbatim>\<open>null\<close> (0 when there is none), converted by
  \<^verbatim>\<open>Number\<close>, kept as it is when finite (negative and fractional values included) and
  0 otherwise.
\<close>

theorem C7_formCount_finite:
  "(mapToErpSystem B item = Inr (Some r) \<longrightarrow>
      isFinite (formCount r)
      \<and> (\<exists>n. ToNumber B (formCountValue item) = Inr n
            \<and> formCount r = (if isFinite n then n else Fin 0))
      \<and> formCountValue item =
          firstPresent [getProp item ''formCount'', getProp item ''form_count'',
                        getProp item ''formsCount'', getProp item ''forms_count''] (JNum (Fin 0)))
   \<and> (normalizeErpSystems B raw = Inr out \<longrightarrow> (\<forall>r \<in> set out. isFinite (formCount r)))"
proof -
  have "normalizeErpSystems B raw = Inr out \<longrightarrow> (\<forall>r \<in> set out. isFinite (formCount r))"
    unfolding normalize_candidates
    using mapAndFilter_survivors [of B _ out] survivors_finite [of out B] by blast
  moreover have "mapToErpSystem B item = Inr (Some r) \<longrightarrow>
      isFinite (formCount r)
      \<and> (\<exists>n. ToNumber B (formCountValue item) = Inr n
            \<and> formCount r = (if isFinite n then n else Fin 0))"
    using mapToErpSystem_Some [of B item r] toErpSystem_finite [of B item r]
      toErpSystem_count [of B item r] by blast
  ultimately show ?thesis
    using formCountValue_firstPresent [of item] by blast
qed

theorem C7_formCount_finite_witness:
  "mapToErpSystem sampleBuiltins itemTitled
     = Inr (Some \<lparr>erp_id = ''7'', erp_name = ''Farm'', formCount = Fin 12\<rparr>)
   \<and> isFinite (Fin 12)
   \<and> formCountValue itemTitled = JStr ''12''
   \<and> ToNumber sampleBuiltins (JStr ''12'') = Inr (Fin 12)
   \<and> normalizeErpSystems sampleBuiltins (JArr [itemTitled, itemCSA (Fin (- 5))])
       = Inr [\<lparr>erp_id = ''7'', erp_name = ''Farm'', formCount = Fin 12\<rparr>,
              \<lparr>erp_id = ''1'', erp_name = ''CSA'', formCount = Fin (- 5)\<rparr>]"
  using C7_formCount_finite
    [where B = sampleBuiltins and item = itemTitled
      and r = "\<lparr>erp_id = ''7'', erp_name = ''Farm'', formCount = Fin 12\<rparr>"
      and raw = "JArr [itemTitled, itemCSA (Fin (- 5))]"
      and out = "[\<lparr>erp_id = ''7'', erp_name = ''Farm'', formCount = Fin 12\<rparr>,
              \<lparr>erp_id = ''1'', erp_name = ''CSA'', formCount = Fin (- 5)\<rparr>]"]
  by (simp add: normalize_defs sample_item_defs sample_builtin_defs)

text \<open>
  C7 as written fails: the item \<^verbatim>\<open>{id: '1', name: 'CSA', formCount: -5}\<close> is kept with
  the count \<^verbatim>\<open>-5\<close>, which is not a non-negative integer.
\<close>

theorem C7_formCount_finite_counterexample:
  "normalizeErpSystems sampleBuiltins (JObj [(''data'', JArr [itemCSA (Fin (- 5))])])
     = Inr [\<lparr>erp_id = ''1'', erp_name = ''CSA'', formCount = Fin (- 5)\<rparr>]
   \<and> \<not> nonNegativeInteger (Fin (- 5))"
  by (simp add: normalize_defs sample_item_defs)




text \<open>
  C9. On a queue that is not a non-empty array the export returns \<^verbatim>\<open>empty\<close> and leaves
  the device as it was: no call of the file system is made. On a non-empty queue it
  never returns \<^verbatim>\<open>empty\<close>. A \<^verbatim>\<open>success\<close> names a candidate directory before which
  every candidate has failed and on which the directory has been ensured (found, or
  made by \<^verbatim>\<open>mkdir\<close>), \<^verbatim>\<open>writeFile\<close> has written the payload to the path of the file in
  it and \<^verbatim>\<open>exists\<close> has found that path again; these are the last calls made, so no
  later candidate is tried; and the first candidate on which the three steps succeed
  is the one returned. An \<^verbatim>\<open>error\<close> is returned exactly when every candidate fails,
  and carries the value thrown for the last of them.
\<close>

theorem C9_export_outcomes:
  "(\<not> (isArray queue \<and> elems queue \<noteq> []) \<longrightarrow>
      exportPendingFormsToFile R p stringify isoNow queue d = (Empty, d))
   \<and> (isArray queue \<and> elems queue \<noteq> [] \<longrightarrow>
      fst (exportPendingFormsToFile R p stringify isoNow queue d) \<noteq> Empty)
   \<and> (exportPendingFormsToFile R p stringify isoNow queue d = (Success path name dir, d') \<longrightarrow>
      name = buildFileName isoNow \<and> path = dir @ ''/'' @ name
      \<and> (\<exists>pre post throwns s1 s2.
            targetDirectories p = pre @ dir # post
            \<and> allFail R name (stringify queue) pre (fs d) = Some (throwns, s1)
            \<and> ensureDirectory R dir s1 = (None, s2)
            \<and> rnfs_writeFile R path (stringify queue) s2 = (None, fs d')
            \<and> rnfs_exists R path (fs d') = Inr True)
      \<and> (\<exists>cs. calls d' = cs @ [WriteFile path (stringify queue), Exists path]))
   \<and> (exportPendingFormsToFile R p stringify isoNow queue d = (Error cause, d') \<longrightarrow>
      (\<exists>throwns.
          allFail R (buildFileName isoNow) (stringify queue) (targetDirectories p) (fs d)
            = Some (throwns, fs d')
          \<and> throwns \<noteq> [] \<and> cause = last throwns))
   \<and> (isArray queue \<and> elems queue \<noteq> []
        \<and> allFail R (buildFileName isoNow) (stringify queue) (targetDirectories p) (fs d)
            = Some (throwns, s') \<longrightarrow>
      fst (exportPendingFormsToFile R p stringify isoNow queue d) = Error (last throwns)
      \<and> fs (snd (exportPendingFormsToFile R p stringify isoNow queue d)) = s')
   \<and> (isArray queue \<and> elems queue \<noteq> []
        \<and> targetDirectories p = pre @ dir # post
        \<and> allFail R (buildFileName isoNow) (stringify queue) pre (fs d) = Some (throwns, s1)
        \<and> candidateAttempt R (buildFileName isoNow) (stringify queue) dir s1 = (None, s2) \<longrightarrow>
      fst (exportPendingFormsToFile R p stringify isoNow queue d)
        = Success (dir @ ''/'' @ buildFileName isoNow) (buildFileName isoNow) dir
      \<and> fs (snd (exportPendingFormsToFile R p stringify isoNow queue d)) = s2)"
proof (intro conjI impI)
  assume "\<not> (isArray queue \<and> elems queue \<noteq> [])"
  then show "exportPendingFormsToFile R p stringify isoNow queue d = (Empty, d)"
    by (auto simp add: exportPendingFormsToFile_def)
next
  assume "isArray queue \<and> elems queue \<noteq> []"
  then show "fst (exportPendingFormsToFile R p stringify isoNow queue d) \<noteq> Empty"
    by (simp add: exportPendingFormsToFile_def try_not_empty)
next
  assume ok: "exportPendingFormsToFile R p stringify isoNow queue d = (Success path name dir, d')"
  then have run: "tryDirectories R (buildFileName isoNow) (stringify queue) (targetDirectories p)
      JNull d = (Success path name dir, d')"
    by (simp add: exportPendingFormsToFile_def split: if_splits)
  from try_success [OF run] obtain pre post throwns d1 where
    *: "name = buildFileName isoNow" "targetDirectories p = pre @ dir # post"
    "failures R (buildFileName isoNow) (stringify queue) pre d = Some (throwns, d1)"
    "writeToDirectory R (buildFileName isoNow) (stringify queue) dir d1 = (Inr path, d')"
    by blast
  from write_success [OF *(4)] have
    pth: "path = dir @ ''/'' @ buildFileName isoNow"
    and att: "candidateAttempt R (buildFileName isoNow) (stringify queue) dir (fs d1) = (None, fs d')"
    by simp_all
  from attempt_steps [OF att] obtain s2 where
    steps: "ensureDirectory R dir (fs d1) = (None, s2)"
    "rnfs_writeFile R (dir @ ''/'' @ buildFileName isoNow) (stringify queue) s2 = (None, fs d')"
    "rnfs_exists R (dir @ ''/'' @ buildFileName isoNow) (fs d') = Inr True"
    by blast
  show "name = buildFileName isoNow" by (rule *(1))
  show "path = dir @ ''/'' @ name" using pth *(1) by simp
  show "\<exists>pre post throwns s1 s2.
            targetDirectories p = pre @ dir # post
            \<and> allFail R name (stringify queue) pre (fs d) = Some (throwns, s1)
            \<and> ensureDirectory R dir s1 = (None, s2)
            \<and> rnfs_writeFile R path (stringify queue) s2 = (None, fs d')
            \<and> rnfs_exists R path (fs d') = Inr True"
    using *(1,2) failures_refines [OF *(3)] steps pth by blast
  show "\<exists>cs. calls d' = cs @ [WriteFile path (stringify queue), Exists path]"
    using write_calls [OF *(4)] by simp
next
  assume "exportPendingFormsToFile R p stringify isoNow queue d = (Error cause, d')"
  then have run: "tryDirectories R (buildFileName isoNow) (stringify queue) (targetDirectories p)
      JNull d = (Error cause, d')"
    by (simp add: exportPendingFormsToFile_def split: if_splits)
  from try_error [OF run] obtain throwns where
    *: "failures R (buildFileName isoNow) (stringify queue) (targetDirectories p) d
          = Some (throwns, d')"
    "length throwns = length (targetDirectories p)" "cause = last (JNull # throwns)"
    by blast
  from *(2) have "throwns \<noteq> []" using targets_nonempty [of p] by auto
  with *(3) failures_refines [OF *(1)] show "\<exists>throwns.
          allFail R (buildFileName isoNow) (stringify queue) (targetDirectories p) (fs d)
            = Some (throwns, fs d')
          \<and> throwns \<noteq> [] \<and> cause = last throwns"
    by auto
next
  assume a: "isArray queue \<and> elems queue \<noteq> []
        \<and> allFail R (buildFileName isoNow) (stringify queue) (targetDirectories p) (fs d)
            = Some (throwns, s')"
  then obtain d1 where
    f: "failures R (buildFileName isoNow) (stringify queue) (targetDirectories p) d
          = Some (throwns, d1)" and s: "fs d1 = s'"
    using allFail_failures [of R _ _ "targetDirectories p" d throwns s'] by blast
  from failures_length [OF f] have "throwns \<noteq> []" using targets_nonempty [of p] by auto
  with a s failures_try [OF f, of JNull]
  have both: "fst (exportPendingFormsToFile R p stringify isoNow queue d) = Error (last throwns)
      \<and> fs (snd (exportPendingFormsToFile R p stringify isoNow queue d)) = s'"
    by (simp add: export_nonempty)
  from both show "fst (exportPendingFormsToFile R p stringify isoNow queue d) = Error (last throwns)"
    by simp
  from both show "fs (snd (exportPendingFormsToFile R p stringify isoNow queue d)) = s'"
    by simp
next
  assume a: "isArray queue \<and> elems queue \<noteq> []
        \<and> targetDirectories p = pre @ dir # post
        \<and> allFail R (buildFileName isoNow) (stringify queue) pre (fs d) = Some (throwns, s1)
        \<and> candidateAttempt R (buildFileName isoNow) (stringify queue) dir s1 = (None, s2)"
  then obtain d1 where
    f: "failures R (buildFileName isoNow) (stringify queue) pre d = Some (throwns, d1)"
    and s: "fs d1 = s1"
    using allFail_failures [of R _ _ pre d throwns s1] by blast
  from a s have "candidateAttempt R (buildFileName isoNow) (stringify queue) dir (fs d1) = (None, s2)"
    by simp
  from attempt_success [OF this] obtain d2 where
    w: "writeToDirectory R (buildFileName isoNow) (stringify queue) dir d1
          = (Inr (dir @ ''/'' @ buildFileName isoNow), d2)" and s2: "fs d2 = s2"
    by blast
  from a s2 failures_then_success [OF f w, of post JNull]
  have both: "fst (exportPendingFormsToFile R p stringify isoNow queue d)
        = Success (dir @ ''/'' @ buildFileName isoNow) (buildFileName isoNow) dir
      \<and> fs (snd (exportPendingFormsToFile R p stringify isoNow queue d)) = s2"
    by (simp add: export_nonempty)
  from both show "fst (exportPendingFormsToFile R p stringify isoNow queue d)
        = Success (dir @ ''/'' @ buildFileName isoNow) (buildFileName isoNow) dir"
    by simp
  from both show "fs (snd (exportPendingFormsToFile R p stringify isoNow queue d)) = s2"
    by simp
qed

theorem C9_export_outcomes_witness:
  "exportPendingFormsToFile (sampleRNFS [''/sdcard'', ''/data'']) android (\<lambda>q. ''[]'')
      ''2026-01-02T03:04:05.678Z'' (JArr []) freshDevice = (Empty, freshDevice)
   \<and> isArray (JArr [JObj []]) \<and> elems (JArr [JObj []]) \<noteq> []
   \<and> targetDirectories android = [''/sdcard/Download''] @ ''/data/app/files'' # []
   \<and> allFail (sampleRNFS [''/sdcard''])
        (buildFileName ''2026-01-02T03:04:05.678Z'') ''[]'' [''/sdcard/Download'']
        (fs freshDevice)
     = Some ([newError ''EACCES''], fs freshDevice)
   \<and> candidateAttempt (sampleRNFS [''/sdcard''])
        (buildFileName ''2026-01-02T03:04:05.678Z'') ''[]'' ''/data/app/files'' (fs freshDevice)
     = (None, \<lparr>folders = [''/sdcard/Download'', ''/data/app/files''],
               files = [(''/data/app/files/pending_forms_2026-01-02T03-04-05-678Z.json'', ''[]'')]\<rparr>)
   \<and> fst (exportPendingFormsToFile (sampleRNFS [''/sdcard'']) android (\<lambda>q. ''[]'')
      ''2026-01-02T03:04:05.678Z'' (JArr [JObj []]) freshDevice)
     = Success ''/data/app/files/pending_forms_2026-01-02T03-04-05-678Z.json''
         ''pending_forms_2026-01-02T03-04-05-678Z.json'' ''/data/app/files''
   \<and> allFail (sampleRNFS [''/sdcard'', ''/data''])
        (buildFileName ''2026-01-02T03:04:05.678Z'') ''[]'' (targetDirectories android)
        (fs freshDevice)
     = Some ([newError ''EACCES'', newError ''EACCES''], fs freshDevice)
   \<and> fst (exportPendingFormsToFile (sampleRNFS [''/sdcard'', ''/data'']) android (\<lambda>q. ''[]'')
      ''2026-01-02T03:04:05.678Z'' (JArr [JObj []]) freshDevice)
     = Error (newError ''EACCES'')"
proof -
  have empty: "exportPendingFormsToFile (sampleRNFS [''/sdcard'', ''/data'']) android (\<lambda>q. ''[]'')
      ''2026-01-02T03:04:05.678Z'' (JArr []) freshDevice = (Empty, freshDevice)"
    using C9_export_outcomes [where R = "sampleRNFS [''/sdcard'', ''/data'']" and p = android
      and stringify = "\<lambda>q. ''[]''" and isoNow = "''2026-01-02T03:04:05.678Z''"
      and queue = "JArr []" and d = freshDevice, THEN conjunct1]
    by simp
  have targets: "targetDirectories android = [''/sdcard/Download''] @ ''/data/app/files'' # []"
    by (simp add: targetDirectories_def android_def)
  have first: "allFail (sampleRNFS [''/sdcard''])
        (buildFileName ''2026-01-02T03:04:05.678Z'') ''[]'' [''/sdcard/Download'']
        (fs freshDevice)
     = Some ([newError ''EACCES''], fs freshDevice)"
    by (simp add: sample_fs_defs)
  have second: "candidateAttempt (sampleRNFS [''/sdcard''])
        (buildFileName ''2026-01-02T03:04:05.678Z'') ''[]'' ''/data/app/files'' (fs freshDevice)
     = (None, \<lparr>folders = [''/sdcard/Download'', ''/data/app/files''],
               files = [(''/data/app/files/pending_forms_2026-01-02T03-04-05-678Z.json'', ''[]'')]\<rparr>)"
    by (simp add: sample_fs_defs)
  have success: "fst (exportPendingFormsToFile (sampleRNFS [''/sdcard'']) android (\<lambda>q. ''[]'')
      ''2026-01-02T03:04:05.678Z'' (JArr [JObj []]) freshDevice)
     = Success (''/data/app/files'' @ ''/'' @ buildFileName ''2026-01-02T03:04:05.678Z'')
         (buildFileName ''2026-01-02T03:04:05.678Z'') ''/data/app/files''"
    using C9_export_outcomes [where R = "sampleRNFS [''/sdcard'']" and p = android
      and stringify = "\<lambda>q. ''[]''" and isoNow = "''2026-01-02T03:04:05.678Z''"
      and queue = "JArr [JObj []]" and d = freshDevice
      and pre = "[''/sdcard/Download'']" and dir = "''/data/app/files''" and post = "[]"
      and throwns = "[newError ''EACCES'']" and ?s1.0 = "fs freshDevice"
      and ?s2.0 = "\<lparr>folders = [''/sdcard/Download'', ''/data/app/files''],
               files = [(''/data/app/files/pending_forms_2026-01-02T03-04-05-678Z.json'', ''[]'')]\<rparr>",
      THEN conjunct2, THEN conjunct2, THEN conjunct2, THEN conjunct2, THEN conjunct2]
      targets first second
    by simp
  have all: "allFail (sampleRNFS [''/sdcard'', ''/data''])
        (buildFileName ''2026-01-02T03:04:05.678Z'') ''[]'' (targetDirectories android)
        (fs freshDevice)
     = Some ([newError ''EACCES'', newError ''EACCES''], fs freshDevice)"
    by (simp add: sample_fs_defs)
  have error: "fst (exportPendingFormsToFile (sampleRNFS [''/sdcard'', ''/data'']) android (\<lambda>q. ''[]'')
      ''2026-01-02T03:04:05.678Z'' (JArr [JObj []]) freshDevice)
     = Error (last [newError ''EACCES'', newError ''EACCES''])"
    using C9_export_outcomes [where R = "sampleRNFS [''/sdcard'', ''/data'']" and p = android
      and stringify = "\<lambda>q. ''[]''" and isoNow = "''2026-01-02T03:04:05.678Z''"
      and queue = "JArr [JObj []]" and d = freshDevice
      and throwns = "[newError ''EACCES'', newError ''EACCES'']" and s' = "fs freshDevice",
      THEN conjunct2, THEN conjunct2, THEN conjunct2, THEN conjunct2, THEN conjunct1]
      all
    by simp
  have name: "buildFileName ''2026-01-02T03:04:05.678Z''
      = ''pending_forms_2026-01-02T03-04-05-678Z.json''"
    by (simp add: buildFileName_def)
  show ?thesis
    using empty targets first second success all error by (simp add: name)
qed

text \<open>
  C10. When the fetch has succeeded, its payload has been normalised and the store
  refuses the write, the run still resolves and shows the fresh normalised list, with
  the loading flag cleared; the cache keeps what it had. (\<^verbatim>\<open>saveErpSystemsToCache\<close> is
  modelled from the specification: it reports a failed write by logging, never by
  throwing.)
\<close>

theorem C10_save_failure:
  assumes "goesOnline e w" and "teardownAt e = None" and "\<not> storeWritable e"
    and "normalizeErpSystems B r = Inr systems"
  shows
   "(getErpSystems e (fetchCalls w) = Inr r \<longrightarrow>
       fst (loadErpSystems1 B e w) = Resolved
       \<and> erpSystems (snd (loadErpSystems1 B e w)) = systems
       \<and> loading (snd (loadErpSystems1 B e w)) = False
       \<and> cacheBlob (snd (loadErpSystems1 B e w)) = cacheBlob w)
    \<and> (fails401 e w \<and> tokenObtained e \<and> getErpSystems e (Suc (fetchCalls w)) = Inr r \<longrightarrow>
       fst (loadErpSystems1 B e w) = Resolved
       \<and> erpSystems (snd (loadErpSystems1 B e w)) = systems
       \<and> loading (snd (loadErpSystems1 B e w)) = False
       \<and> cacheBlob (snd (loadErpSystems1 B e w)) = cacheBlob w)
    \<and> (getErpSystems e (fetchCalls w) = Inr r \<and> systems \<noteq> [] \<longrightarrow>
       fst (loadErpSystems2 B e w) = Resolved
       \<and> erpSystems (snd (loadErpSystems2 B e w)) = systems
       \<and> loading (snd (loadErpSystems2 B e w)) = False
       \<and> cacheBlob (snd (loadErpSystems2 B e w)) = cacheBlob w)"
  using run1_success(1-4) [OF assms(1) _ assms(4)]
    run1_401_retry_succeeds(3-6) [OF assms(1) _ _ _ assms(4)]
    run2_success [OF assms(1) _ assms(4) assms(2)] assms(2,3)
  by simp

theorem C10_save_failure_witness:
  "goesOnline ((online (Inr (payloadCSA (Fin 5))) (Inl errorNetwork))\<lparr>storeWritable := False\<rparr>)
     (mounted (Stored [systemCSA (Fin 2)]))
   \<and> teardownAt ((online (Inr (payloadCSA (Fin 5))) (Inl errorNetwork))\<lparr>storeWritable := False\<rparr>) = None
   \<and> \<not> storeWritable ((online (Inr (payloadCSA (Fin 5))) (Inl errorNetwork))\<lparr>storeWritable := False\<rparr>)
   \<and> normalizeErpSystems sampleBuiltins (payloadCSA (Fin 5)) = Inr [systemCSA (Fin 5)]
   \<and> fst (loadErpSystems1 sampleBuiltins
        ((online (Inr (payloadCSA (Fin 5))) (Inl errorNetwork))\<lparr>storeWritable := False\<rparr>)
        (mounted (Stored [systemCSA (Fin 2)]))) = Resolved
   \<and> erpSystems (snd (loadErpSystems1 sampleBuiltins
        ((online (Inr (payloadCSA (Fin 5))) (Inl errorNetwork))\<lparr>storeWritable := False\<rparr>)
        (mounted (Stored [systemCSA (Fin 2)])))) = [systemCSA (Fin 5)]
   \<and> cacheBlob (snd (loadErpSystems1 sampleBuiltins
        ((online (Inr (payloadCSA (Fin 5))) (Inl errorNetwork))\<lparr>storeWritable := False\<rparr>)
        (mounted (Stored [systemCSA (Fin 2)])))) = Stored [systemCSA (Fin 2)]
   \<and> erpSystems (snd (loadErpSystems2 sampleBuiltins
        ((online (Inr (payloadCSA (Fin 5))) (Inl errorNetwork))\<lparr>storeWritable := False\<rparr>)
        (mounted (Stored [systemCSA (Fin 2)])))) = [systemCSA (Fin 5)]
   \<and> erpSystems (snd (loadErpSystems1 sampleBuiltins
        ((online (Inl error401) (Inr (payloadCSA (Fin 5))))\<lparr>storeWritable := False\<rparr>)
        (mounted (Stored [systemCSA (Fin 2)])))) = [systemCSA (Fin 5)]"
  using
    C10_save_failure [where e = "(online (Inr (payloadCSA (Fin 5))) (Inl errorNetwork))\<lparr>storeWritable := False\<rparr>"
      and w = "mounted (Stored [systemCSA (Fin 2)])" and r = "payloadCSA (Fin 5)"
      and systems = "[systemCSA (Fin 5)]" and B = sampleBuiltins]
    C10_save_failure [where e = "(online (Inl error401) (Inr (payloadCSA (Fin 5))))\<lparr>storeWritable := False\<rparr>"
      and w = "mounted (Stored [systemCSA (Fin 2)])" and r = "payloadCSA (Fin 5)"
      and systems = "[systemCSA (Fin 5)]" and B = sampleBuiltins]
  by (simp add: sample_eval)

end
